theory Spec2Isabelle
  imports Complex_Main
begin

section \<open>Python strings\<close>

text \<open>
  Strings are byte lists (UTF-8). Python's \<^verbatim>\<open>str.upper()\<close> and \<^verbatim>\<open>str.strip()\<close> follow
  the Unicode tables of the interpreter; every function below that calls them takes
  them as the parameters \<open>up\<close> and \<open>strp\<close>, so that what is proved of it holds for
  the functions of the interpreter on every string. \<open>ascii_upper\<close> and
  \<open>ascii_strip\<close> are these two functions on ASCII text (letters \<open>a..z\<close>, and the
  white space 9..13, 28..32 of \<^verbatim>\<open>str.isspace\<close>); the concrete scenarios, which are all
  ASCII, use them. \<open>lstrip\<close> and \<open>endswith\<close> with ASCII arguments act on the bytes
  as they do on the characters.
\<close>

definition upper_char :: "char \<Rightarrow> char" where
  "upper_char c =
     (case map_of (zip ''abcdefghijklmnopqrstuvwxyz'' ''ABCDEFGHIJKLMNOPQRSTUVWXYZ'') c of
        Some u \<Rightarrow> u
      | None \<Rightarrow> c)"

definition ascii_upper :: "string \<Rightarrow> string" where
  "ascii_upper s = map upper_char s"

definition is_space :: "char \<Rightarrow> bool" where
  "is_space c =
     (c \<in> set [CHR 0x09, CHR 0x0A, CHR 0x0B, CHR 0x0C, CHR 0x0D,
                CHR 0x1C, CHR 0x1D, CHR 0x1E, CHR 0x1F, CHR 0x20])"

definition ascii_strip :: "string \<Rightarrow> string" where
  "ascii_strip s = rev (dropWhile is_space (rev (dropWhile is_space s)))"

text \<open>The type of the parameters \<open>up\<close> and \<open>strp\<close>.\<close>

type_synonym str_fun = "string \<Rightarrow> string"

definition lstrip :: "char \<Rightarrow> string \<Rightarrow> string" where
  "lstrip c s = dropWhile (\<lambda>x. x = c) s"

definition endswith :: "string \<Rightarrow> string \<Rightarrow> bool" where
  "endswith s suf =
     (length suf \<le> length s \<and> drop (length s - length suf) s = suf)"

section \<open>Python values\<close>

text \<open>
  A float is a finite number or one of the three non-finite values; rounding and
  overflow of finite arithmetic are not modelled. A \<^verbatim>\<open>datetime\<close> or
  \<^verbatim>\<open>pd.Timestamp\<close> is an instant; a calendar date is a day number.
\<close>

datatype pyfloat = Fin real | PosInf | NegInf | NaN

datatype pyval =
    PNone
  | PBool bool
  | PInt int
  | PFloat pyfloat
  | PStr string
  | PDatetime int
  | PList "pyval list"
  | PDict "(string \<times> pyval) list"
  | PSeries "(string \<times> pyval) list"
  | PDataFrame "(string \<times> pyval) list"

datatype py_exception = PyException string

fun is_finite :: "pyfloat \<Rightarrow> bool" where
  "is_finite (Fin x) = True"
| "is_finite PosInf = False"
| "is_finite NegInf = False"
| "is_finite NaN = False"

text \<open>\<^verbatim>\<open>pd.isna(x)\<close> on a float.\<close>

fun isna :: "pyfloat \<Rightarrow> bool" where
  "isna NaN = True"
| "isna x = False"

text \<open>Python truthiness, as in \<^verbatim>\<open>if cached_data:\<close>.\<close>

fun truthy :: "pyval \<Rightarrow> bool" where
  "truthy PNone = False"
| "truthy (PBool b) = b"
| "truthy (PInt i) = (i \<noteq> 0)"
| "truthy (PFloat f) = (f \<noteq> Fin 0)"
| "truthy (PStr s) = (s \<noteq> [])"
| "truthy (PDatetime t) = True"
| "truthy (PList xs) = (xs \<noteq> [])"
| "truthy (PDict kvs) = (kvs \<noteq> [])"
| "truthy (PSeries kvs) = True"
| "truthy (PDataFrame kvs) = True"

text \<open>\<^verbatim>\<open>d.get(k)\<close> on a dictionary kept as its items in insertion order.\<close>

definition dict_get :: "pyval \<Rightarrow> string \<Rightarrow> pyval option" where
  "dict_get d k = (case d of PDict kvs \<Rightarrow> map_of kvs k | _ \<Rightarrow> None)"

section \<open>\<^verbatim>\<open>app/utils/yfinance_helper.py\<close>\<close>

subsection \<open>\<^verbatim>\<open>sanitize_for_json\<close>\<close>

text \<open>
  The branches are those of the source, in its order: dict, list, Series, DataFrame
  (each row of a DataFrame is the dict of that row), float, int (a \<^verbatim>\<open>bool\<close> is an
  \<^verbatim>\<open>int\<close> in Python), datetime, \<^verbatim>\<open>pd.isna\<close>, anything else. Dictionary keys are
  strings, on which \<^verbatim>\<open>str(k)\<close> is the identity. \<open>isoformat\<close> is the library's
  \<^verbatim>\<open>datetime.isoformat\<close>.

  The float test of the source reads \<^verbatim>\<open>pd.core.dtypes.generic.floating\<close> (and the int
  test \<^verbatim>\<open>pd.core.dtypes.generic.integer\<close>), names of the installed pandas and not of
  this repository. \<open>generic_types\<close> says whether that module has them. Where it has
  not, evaluating the float test raises \<^verbatim>\<open>AttributeError\<close>, which happens for every
  value that is not a dict, list, Series or DataFrame. An exception raised for an
  element leaves the comprehension that visits it.
\<close>

fun sequence_results :: "(py_exception + 'a) list \<Rightarrow> py_exception + 'a list" where
  "sequence_results [] = Inr []"
| "sequence_results (x # xs) =
     (case x of
        Inl ex \<Rightarrow> Inl ex
      | Inr v \<Rightarrow>
          (case sequence_results xs of
             Inl ex \<Rightarrow> Inl ex
           | Inr vs \<Rightarrow> Inr (v # vs)))"

definition dict_result :: "(py_exception + (string \<times> pyval)) list \<Rightarrow> py_exception + pyval" where
  "dict_result items =
     (case sequence_results items of Inl ex \<Rightarrow> Inl ex | Inr kvs \<Rightarrow> Inr (PDict kvs))"

definition item_result :: "string \<Rightarrow> py_exception + pyval \<Rightarrow> py_exception + (string \<times> pyval)" where
  "item_result k r = (case r of Inl ex \<Rightarrow> Inl ex | Inr v \<Rightarrow> Inr (k, v))"

definition scalar_result :: "bool \<Rightarrow> pyval \<Rightarrow> py_exception + pyval" where
  "scalar_result generic_types v =
     (if generic_types then Inr v
      else Inl (PyException
        ''AttributeError: module pandas.core.dtypes.generic has no attribute floating''))"

fun sanitize_for_json :: "bool \<Rightarrow> (int \<Rightarrow> string) \<Rightarrow> pyval \<Rightarrow> py_exception + pyval" where
  "sanitize_for_json generic_types isoformat (PDict kvs) =
     dict_result
       (map (\<lambda>kv. item_result (fst kv) (sanitize_for_json generic_types isoformat (snd kv)))
          kvs)"
| "sanitize_for_json generic_types isoformat (PList xs) =
     (case sequence_results (map (sanitize_for_json generic_types isoformat) xs) of
        Inl ex \<Rightarrow> Inl ex
      | Inr ys \<Rightarrow> Inr (PList ys))"
| "sanitize_for_json generic_types isoformat (PSeries kvs) =
     dict_result
       (map (\<lambda>kv. item_result (fst kv) (sanitize_for_json generic_types isoformat (snd kv)))
          kvs)"
| "sanitize_for_json generic_types isoformat (PDataFrame rows) =
     dict_result
       (map (\<lambda>kv. item_result (fst kv) (sanitize_for_json generic_types isoformat (snd kv)))
          rows)"
| "sanitize_for_json generic_types isoformat (PFloat f) =
     scalar_result generic_types
       (if f = NaN \<or> f = PosInf \<or> f = NegInf then PNone else PFloat f)"
| "sanitize_for_json generic_types isoformat (PInt i) =
     scalar_result generic_types (PInt i)"
| "sanitize_for_json generic_types isoformat (PBool b) =
     scalar_result generic_types (PInt (if b then 1 else 0))"
| "sanitize_for_json generic_types isoformat (PDatetime t) =
     scalar_result generic_types (PStr (isoformat t))"
| "sanitize_for_json generic_types isoformat PNone =
     scalar_result generic_types PNone"
| "sanitize_for_json generic_types isoformat (PStr s) =
     scalar_result generic_types (PStr s)"

text \<open>A value is JSON-safe when no non-finite float, datetime, Series or DataFrame
  occurs anywhere in it.\<close>

fun json_safe :: "pyval \<Rightarrow> bool" where
  "json_safe PNone = True"
| "json_safe (PBool b) = True"
| "json_safe (PInt i) = True"
| "json_safe (PFloat f) = is_finite f"
| "json_safe (PStr s) = True"
| "json_safe (PDatetime t) = False"
| "json_safe (PList xs) = list_all json_safe xs"
| "json_safe (PDict kvs) = list_all (\<lambda>kv. json_safe (snd kv)) kvs"
| "json_safe (PSeries kvs) = False"
| "json_safe (PDataFrame kvs) = False"

subsection \<open>\<^verbatim>\<open>get_safe_ticker_data_sync\<close>\<close>

definition INDEX_SYMBOLS :: "string list" where
  "INDEX_SYMBOLS = [''^NSEI'', ''^NSEBANK'', ''^DJI'', ''^FTSE'', ''^BSESN'']"

text \<open>The candidate list the function builds before it queries the provider.\<close>

definition symbol_variations :: "str_fun \<Rightarrow> string \<Rightarrow> string list" where
  "symbol_variations up symbol =
     (let clean_symbol = up (lstrip (CHR ''$'') symbol)
      in if clean_symbol \<in> set INDEX_SYMBOLS then [clean_symbol]
         else if endswith clean_symbol ''.BSE'' then
           (let base = take (length clean_symbol - 4) clean_symbol
            in [base @ ''.BO'', base @ ''.NS''])
         else if endswith clean_symbol ''.NS'' \<or> endswith clean_symbol ''.BO''
           then [clean_symbol]
         else [clean_symbol @ ''.NS'', clean_symbol @ ''.BO''])"

section \<open>Float arithmetic\<close>

text \<open>
  IEEE arithmetic on the four kinds of float, without signed zeros. \<open>fdiv\<close> is the
  division of a \<^verbatim>\<open>numpy.float64\<close>, which yields an infinity or NaN on a zero divisor;
  Python's own float division raises there, and the only Python division of the
  source is guarded by \<^verbatim>\<open>previous_price != 0\<close>.
\<close>

fun fneg :: "pyfloat \<Rightarrow> pyfloat" where
  "fneg (Fin x) = Fin (- x)"
| "fneg PosInf = NegInf"
| "fneg NegInf = PosInf"
| "fneg NaN = NaN"

fun fadd :: "pyfloat \<Rightarrow> pyfloat \<Rightarrow> pyfloat" where
  "fadd NaN b = NaN"
| "fadd a NaN = NaN"
| "fadd (Fin x) (Fin y) = Fin (x + y)"
| "fadd PosInf NegInf = NaN"
| "fadd NegInf PosInf = NaN"
| "fadd PosInf b = PosInf"
| "fadd NegInf b = NegInf"
| "fadd (Fin x) b = b"

definition fsub :: "pyfloat \<Rightarrow> pyfloat \<Rightarrow> pyfloat" where
  "fsub a b = fadd a (fneg b)"

text \<open>The sign of a float that is not NaN: \<open>1\<close>, \<open>0\<close> or \<open>-1\<close>.\<close>

fun fsign :: "pyfloat \<Rightarrow> int" where
  "fsign (Fin x) = (if x = 0 then 0 else if 0 < x then 1 else - 1)"
| "fsign PosInf = 1"
| "fsign NegInf = - 1"
| "fsign NaN = 0"

definition signed_inf :: "int \<Rightarrow> pyfloat" where
  "signed_inf s = (if s = 0 then NaN else if 0 < s then PosInf else NegInf)"

fun fmul :: "pyfloat \<Rightarrow> pyfloat \<Rightarrow> pyfloat" where
  "fmul NaN b = NaN"
| "fmul a NaN = NaN"
| "fmul (Fin x) (Fin y) = Fin (x * y)"
| "fmul a b = signed_inf (fsign a * fsign b)"

fun fdiv :: "pyfloat \<Rightarrow> pyfloat \<Rightarrow> pyfloat" where
  "fdiv NaN b = NaN"
| "fdiv a NaN = NaN"
| "fdiv (Fin x) (Fin y) = (if y = 0 then signed_inf (fsign (Fin x)) else Fin (x / y))"
| "fdiv (Fin x) b = Fin 0"
| "fdiv a (Fin y) = signed_inf (fsign a * (if y < 0 then - 1 else 1))"
| "fdiv a b = NaN"

text \<open>\<^verbatim>\<open>int(x)\<close> on a float truncates towards zero and raises on NaN and the infinities.\<close>

definition py_int :: "pyfloat \<Rightarrow> py_exception + int" where
  "py_int f =
     (case f of
        Fin x \<Rightarrow> Inr (if 0 \<le> x then \<lfloor>x\<rfloor> else \<lceil>x\<rceil>)
      | NaN \<Rightarrow> Inl (PyException ''ValueError: cannot convert float NaN to integer'')
      | _ \<Rightarrow> Inl (PyException ''OverflowError: cannot convert float infinity to integer''))"

text \<open>The right operand of \<^verbatim>\<open>latest['Close'] - prev_close\<close>: a number, or a
  \<^verbatim>\<open>TypeError\<close>.\<close>

definition as_float :: "pyval \<Rightarrow> py_exception + pyfloat" where
  "as_float v =
     (case v of
        PFloat f \<Rightarrow> Inr f
      | PInt i \<Rightarrow> Inr (Fin (of_int i))
      | PBool b \<Rightarrow> Inr (Fin (if b then 1 else 0))
      | _ \<Rightarrow> Inl (PyException ''TypeError: unsupported operand type''))"

section \<open>Collaborators\<close>

subsection \<open>The market-data provider\<close>

text \<open>
  One row of the DataFrame that \<^verbatim>\<open>ticker.history\<close> returns: the date of its index
  timestamp and the five columns. A request is \<^verbatim>\<open>history(period=p)\<close> or
  \<^verbatim>\<open>history(start=a, end=b)\<close>; the provider answers with rows or raises.
\<close>

record provider_bar =
  p_date :: int
  p_open :: pyfloat
  p_high :: pyfloat
  p_low :: pyfloat
  p_close :: pyfloat
  p_volume :: pyfloat

datatype hist_request = Period string | Window int int

datatype provider_call = HistoryCall string hist_request | InfoCall string

record provider =
  history :: "string \<Rightarrow> hist_request \<Rightarrow> py_exception + provider_bar list"
  ticker_info :: "string \<Rightarrow> py_exception + (string \<times> pyval) list"

subsection \<open>The durable store\<close>

text \<open>
  \<^verbatim>\<open>app/models/stocks.py\<close>: the columns of \<^verbatim>\<open>Stock\<close> that the service reads, and the
  table \<^verbatim>\<open>stock_history\<close> as its rows in physical order, each a key
  \<open>(symbol, date)\<close> with the value columns. The unique index
  \<^verbatim>\<open>idx_symbol_date_unique\<close> is what \<^verbatim>\<open>ON CONFLICT (symbol, date)\<close> resolves on.
\<close>

record stock_row =
  st_symbol :: string
  st_yahoo_symbol :: string
  st_company_name :: "string option"
  st_exchange :: "string option"
  st_sector :: "string option"

record bar_fields =
  bar_open :: "pyfloat option"
  bar_high :: "pyfloat option"
  bar_low :: "pyfloat option"
  bar_close :: "pyfloat option"
  bar_volume :: "int option"
  last_updated :: int

type_synonym hist_row = "(string \<times> int) \<times> bar_fields"

type_synonym hist_table = "hist_row list"

text \<open>The statements the service sends; each may raise in the driver.\<close>

datatype db_query =
    QYahooSymbol | QLatestDate | QUpsert | QRollback | QRange
  | QQuoteLatestRow | QQuoteStock | QFetchStock

subsection \<open>The environment of one service call\<close>

record ist_time =
  weekday :: nat
  hour :: nat
  minute :: nat
  second :: nat
  microsecond :: nat

text \<open>
  The clock is read several times during a call, and each reading has its own field:
  \<open>today\<close> is \<^verbatim>\<open>date.today()\<close> in \<^verbatim>\<open>_get_period_dates\<close>, \<open>today_check\<close> the
  one compared with the latest stored date in \<^verbatim>\<open>get_history\<close>, \<open>today_fetch\<close> the
  one in \<^verbatim>\<open>_fetch_and_store_history\<close>; \<open>ist_now\<close> is the time
  \<^verbatim>\<open>_is_market_open\<close> sees before the store lookup of \<^verbatim>\<open>get_quote\<close>, and
  \<open>ist_now_ttl\<close> the time it sees when the TTL of a fetched quote is chosen.
  \<open>pd_generic_types\<close> is the \<open>generic_types\<close> of \<^verbatim>\<open>sanitize_for_json\<close>.
\<close>

record env =
  cache_get :: "string \<Rightarrow> pyval option"
  stocks :: "stock_row list"
  db_fault :: "db_query \<Rightarrow> py_exception option"
  db_now :: int
  yf :: provider
  today :: int
  today_check :: int
  today_fetch :: int
  ist_now :: ist_time
  ist_now_ttl :: ist_time
  now_iso :: string
  strftime :: "int \<Rightarrow> string"
  isoformat :: "int \<Rightarrow> string"
  pd_generic_types :: bool

text \<open>
  What a service call leaves behind: the value returned, the table, the provider
  calls made and the \<^verbatim>\<open>redis_client.set(key, value, ttl)\<close> calls issued, in order.
\<close>

record outcome =
  result :: pyval
  table :: hist_table
  provider_log :: "provider_call list"
  cache_log :: "(string \<times> pyval \<times> int) list"

definition CACHE_TTL_REALTIME :: int where
  "CACHE_TTL_REALTIME = 30"

definition CACHE_TTL_HISTORICAL :: int where
  "CACHE_TTL_HISTORICAL = 86400"

section \<open>\<^verbatim>\<open>get_safe_ticker_data_sync\<close>: the provider loop\<close>

text \<open>
  The candidates are tried in order; the first whose six-month history is not empty
  is returned with that history, and a candidate that raises is skipped.
\<close>

fun try_variants ::
  "provider \<Rightarrow> string list \<Rightarrow> (string \<times> provider_bar list) option \<times> provider_call list"
where
  "try_variants p [] = (None, [])"
| "try_variants p (variant # rest) =
     (case history p variant (Period ''6mo'') of
        Inr hist \<Rightarrow>
          if hist \<noteq> [] then (Some (variant, hist), [HistoryCall variant (Period ''6mo'')])
          else (fst (try_variants p rest),
                HistoryCall variant (Period ''6mo'') # snd (try_variants p rest))
      | Inl e \<Rightarrow>
          (fst (try_variants p rest),
           HistoryCall variant (Period ''6mo'') # snd (try_variants p rest)))"

definition get_safe_ticker_data_sync ::
  "str_fun \<Rightarrow> provider \<Rightarrow> string \<Rightarrow> (string \<times> provider_bar list) option \<times> provider_call list"
where
  "get_safe_ticker_data_sync up p symbol = try_variants p (symbol_variations up symbol)"

text \<open>What the provider has for one candidate: its six-month history when that is not
  empty, and nothing when it is empty or the request raises.\<close>

definition six_month_data :: "provider \<Rightarrow> string \<Rightarrow> provider_bar list option" where
  "six_month_data p variant =
     (case history p variant (Period ''6mo'') of
        Inr hist \<Rightarrow> if hist \<noteq> [] then Some hist else None
      | Inl ex \<Rightarrow> None)"

text \<open>
  What ``the first candidate, the second as fallback'' means for two candidates; the
  resolver is compared with it below. The first candidate is requested; when it has
  data that is the result and the second is not requested; otherwise the second is
  requested, and the result is its data, or nothing when it has none either.
\<close>

definition first_then_fallback ::
  "provider \<Rightarrow> string \<Rightarrow> string \<Rightarrow> (string \<times> provider_bar list) option \<times> provider_call list"
where
  "first_then_fallback p first_variant second_variant =
     (case six_month_data p first_variant of
        Some hist \<Rightarrow>
          (Some (first_variant, hist), [HistoryCall first_variant (Period ''6mo'')])
      | None \<Rightarrow>
          (case six_month_data p second_variant of
             Some hist \<Rightarrow>
               (Some (second_variant, hist),
                [HistoryCall first_variant (Period ''6mo''),
                 HistoryCall second_variant (Period ''6mo'')])
           | None \<Rightarrow>
               (None,
                [HistoryCall first_variant (Period ''6mo''),
                 HistoryCall second_variant (Period ''6mo'')])))"

section \<open>\<^verbatim>\<open>app/services/stock_service.py\<close>\<close>

subsection \<open>Queries\<close>

definition scalar_one_or_none :: "'a list \<Rightarrow> py_exception + 'a option" where
  "scalar_one_or_none rows =
     (case rows of
        [] \<Rightarrow> Inr None
      | [r] \<Rightarrow> Inr (Some r)
      | _ \<Rightarrow> Inl (PyException ''MultipleResultsFound''))"

definition symbol_rows :: "hist_table \<Rightarrow> string \<Rightarrow> hist_table" where
  "symbol_rows tbl symbol = filter (\<lambda>r. fst (fst r) = symbol) tbl"

definition order_by_date :: "hist_table \<Rightarrow> hist_table" where
  "order_by_date rows = sort_key (\<lambda>r. snd (fst r)) rows"

text \<open>\<^verbatim>\<open>ORDER BY date DESC LIMIT 1\<close> over the rows of one symbol.\<close>

definition latest_row :: "hist_table \<Rightarrow> string \<Rightarrow> hist_row option" where
  "latest_row tbl symbol =
     (case rev (order_by_date (symbol_rows tbl symbol)) of
        [] \<Rightarrow> None
      | r # _ \<Rightarrow> Some r)"

definition get_yahoo_symbol :: "str_fun \<Rightarrow> env \<Rightarrow> string \<Rightarrow> string option" where
  "get_yahoo_symbol up e symbol =
     (case db_fault e QYahooSymbol of
        Some ex \<Rightarrow> None
      | None \<Rightarrow>
          (case scalar_one_or_none
                  (map st_yahoo_symbol
                     (filter (\<lambda>s. st_symbol s = up symbol) (stocks e))) of
             Inl ex \<Rightarrow> None
           | Inr r \<Rightarrow> r))"

definition get_latest_date_in_db :: "str_fun \<Rightarrow> env \<Rightarrow> hist_table \<Rightarrow> string \<Rightarrow> int option" where
  "get_latest_date_in_db up e tbl symbol =
     (case db_fault e QLatestDate of
        Some ex \<Rightarrow> None
      | None \<Rightarrow>
          (case latest_row tbl (up symbol) of
             None \<Rightarrow> None
           | Some r \<Rightarrow> Some (snd (fst r))))"

subsection \<open>\<^verbatim>\<open>_is_market_open\<close> and \<^verbatim>\<open>_get_period_dates\<close>\<close>

definition time_of_day :: "ist_time \<Rightarrow> nat" where
  "time_of_day t = ((hour t * 60 + minute t) * 60 + second t) * 1000000 + microsecond t"

definition is_market_open :: "ist_time \<Rightarrow> bool" where
  "is_market_open now =
     (if weekday now \<ge> 5 then False
      else (9 * 60 + 15) * 60 * 1000000 \<le> time_of_day now
           \<and> time_of_day now \<le> (15 * 60 + 30) * 60 * 1000000)"

definition period_mapping :: "(string \<times> int) list" where
  "period_mapping =
     [(''1D'', 1), (''1W'', 7), (''15D'', 15), (''1M'', 30),
      (''6M'', 180), (''1Y'', 365), (''5Y'', 365 * 5)]"

definition get_period_dates :: "str_fun \<Rightarrow> int \<Rightarrow> string \<Rightarrow> int option \<times> int" where
  "get_period_dates up today_date period =
     (if up period = ''ALL'' then (None, today_date)
      else (case map_of period_mapping (up period) of
              Some delta \<Rightarrow>
                if delta \<noteq> 0 then (Some (today_date - delta), today_date)
                else (Some (today_date - 180), today_date)
            | None \<Rightarrow> (Some (today_date - 180), today_date)))"


subsection \<open>\<^verbatim>\<open>_store_history_to_db\<close>\<close>

text \<open>
  The dictionary built for one DataFrame row, with the \<^verbatim>\<open>NOW()\<close> of the statement as
  its \<open>last_updated\<close>. A NaN field becomes \<open>None\<close>; \<^verbatim>\<open>int(row['Volume'])\<close> raises
  on an infinite volume.
\<close>

definition insert_row :: "str_fun \<Rightarrow> string \<Rightarrow> int \<Rightarrow> provider_bar \<Rightarrow> py_exception + hist_row" where
  "insert_row up symbol now b =
     (case (if isna (p_volume b) then Inr None
            else (case py_int (p_volume b) of Inl ex \<Rightarrow> Inl ex | Inr v \<Rightarrow> Inr (Some v))) of
        Inl ex \<Rightarrow> Inl ex
      | Inr vol \<Rightarrow>
          Inr ((up symbol, p_date b),
               \<lparr>bar_open = (if isna (p_open b) then None else Some (p_open b)),
                bar_high = (if isna (p_high b) then None else Some (p_high b)),
                bar_low = (if isna (p_low b) then None else Some (p_low b)),
                bar_close = (if isna (p_close b) then None else Some (p_close b)),
                bar_volume = vol,
                last_updated = now\<rparr>))"

fun insert_data :: "str_fun \<Rightarrow> string \<Rightarrow> int \<Rightarrow> provider_bar list \<Rightarrow> py_exception + hist_row list" where
  "insert_data up symbol now [] = Inr []"
| "insert_data up symbol now (b # bs) =
     (case insert_row up symbol now b of
        Inl ex \<Rightarrow> Inl ex
      | Inr r \<Rightarrow>
          (case insert_data up symbol now bs of
             Inl ex \<Rightarrow> Inl ex
           | Inr rs \<Rightarrow> Inr (r # rs)))"

text \<open>\<^verbatim>\<open>INSERT ... ON CONFLICT (symbol, date) DO UPDATE SET ...\<close> for one row: the row
  with that key takes the new values, or the row is added.\<close>

fun upsert :: "'k \<times> 'v \<Rightarrow> ('k \<times> 'v) list \<Rightarrow> ('k \<times> 'v) list" where
  "upsert r [] = [r]"
| "upsert r (x # xs) = (if fst x = fst r then (fst x, snd r) # xs else x # upsert r xs)"

text \<open>
  The statement is executed once per prepared row and committed; any exception rolls
  the transaction back, so the table is as before. The second component is the
  exception that leaves the function, which only a failing rollback can cause.
\<close>

definition store_history_to_db ::
  "str_fun \<Rightarrow> env \<Rightarrow> string \<Rightarrow> provider_bar list \<Rightarrow> hist_table \<Rightarrow> hist_table \<times> py_exception option"
where
  "store_history_to_db up e symbol data tbl =
     (case insert_data up symbol (db_now e) data of
        Inl ex \<Rightarrow> (tbl, db_fault e QRollback)
      | Inr rows \<Rightarrow>
          if rows \<noteq> [] then
            (case db_fault e QUpsert of
               Some ex \<Rightarrow> (tbl, db_fault e QRollback)
             | None \<Rightarrow> (fold upsert rows tbl, None))
          else (tbl, None))"

text \<open>The value columns of a table, without \<open>last_updated\<close>.\<close>

definition bar_values ::
  "hist_table \<Rightarrow>
   ((string \<times> int) \<times> pyfloat option \<times> pyfloat option \<times> pyfloat option \<times> pyfloat option
     \<times> int option) list"
where
  "bar_values tbl =
     map (\<lambda>r. (fst r, bar_open (snd r), bar_high (snd r), bar_low (snd r),
                bar_close (snd r), bar_volume (snd r))) tbl"

text \<open>The value that a batch leaves under a key: that of the last row of the batch
  with the key, or the given one when the batch has none.\<close>

fun last_value :: "('k \<times> 'v) list \<Rightarrow> 'k \<Rightarrow> 'v \<Rightarrow> 'v" where
  "last_value [] k d = d"
| "last_value (b # bs) k d = last_value bs k (if fst b = k then snd b else d)"

subsection \<open>\<^verbatim>\<open>_fetch_and_store_history\<close>\<close>

definition fetch_and_store_history ::
  "str_fun \<Rightarrow> env \<Rightarrow> hist_table \<Rightarrow> string \<Rightarrow> string \<Rightarrow> int option
     \<Rightarrow> hist_table \<times> provider_call list"
where
  "fetch_and_store_history up e tbl yahoo_symbol symbol start_date =
     (let request =
            (case start_date of
               Some start \<Rightarrow> Window start (today_fetch e + 1)
             | None \<Rightarrow> Period ''max'')
      in case history (yf e) yahoo_symbol request of
           Inl ex \<Rightarrow> (tbl, [HistoryCall yahoo_symbol request])
         | Inr hist \<Rightarrow>
             if hist \<noteq> [] then
               (fst (store_history_to_db up e symbol hist tbl),
                [HistoryCall yahoo_symbol request])
             else (tbl, [HistoryCall yahoo_symbol request]))"

subsection \<open>\<^verbatim>\<open>_get_history_from_db\<close>\<close>

definition float_or_zero :: "pyfloat option \<Rightarrow> pyval" where
  "float_or_zero x = (case x of Some f \<Rightarrow> PFloat f | None \<Rightarrow> PInt 0)"

definition int_or_zero :: "int option \<Rightarrow> pyval" where
  "int_or_zero x = (case x of Some v \<Rightarrow> PInt v | None \<Rightarrow> PInt 0)"

definition history_item :: "(int \<Rightarrow> string) \<Rightarrow> hist_row \<Rightarrow> pyval" where
  "history_item fmt r =
     PDict [(''timestamp'', PStr (fmt (snd (fst r)))),
            (''open'', float_or_zero (bar_open (snd r))),
            (''high'', float_or_zero (bar_high (snd r))),
            (''low'', float_or_zero (bar_low (snd r))),
            (''close'', float_or_zero (bar_close (snd r))),
            (''volume'', int_or_zero (bar_volume (snd r)))]"

definition get_history_from_db ::
  "str_fun \<Rightarrow> env \<Rightarrow> hist_table \<Rightarrow> string \<Rightarrow> int option \<Rightarrow> int option \<Rightarrow> pyval list"
where
  "get_history_from_db up e tbl symbol start_date end_date =
     (case db_fault e QRange of
        Some ex \<Rightarrow> []
      | None \<Rightarrow>
          map (history_item (strftime e))
            (order_by_date
               (filter
                  (\<lambda>r. fst (fst r) = up symbol
                       \<and> (case start_date of None \<Rightarrow> True | Some a \<Rightarrow> a \<le> snd (fst r))
                       \<and> (case end_date of None \<Rightarrow> True | Some b \<Rightarrow> snd (fst r) \<le> b))
                  tbl)))"

text \<open>
  The number that a numeric field of the response denotes, and a stored row with every
  null value column replaced by zero.
\<close>

definition num_value :: "pyval \<Rightarrow> pyfloat option" where
  "num_value v =
     (case v of
        PInt i \<Rightarrow> Some (Fin (of_int i))
      | PFloat f \<Rightarrow> Some f
      | _ \<Rightarrow> None)"

definition zero_filled :: "hist_row \<Rightarrow> hist_row" where
  "zero_filled r =
     (fst r,
      \<lparr>bar_open = Some (case bar_open (snd r) of Some f \<Rightarrow> f | None \<Rightarrow> Fin 0),
       bar_high = Some (case bar_high (snd r) of Some f \<Rightarrow> f | None \<Rightarrow> Fin 0),
       bar_low = Some (case bar_low (snd r) of Some f \<Rightarrow> f | None \<Rightarrow> Fin 0),
       bar_close = Some (case bar_close (snd r) of Some f \<Rightarrow> f | None \<Rightarrow> Fin 0),
       bar_volume = Some (case bar_volume (snd r) of Some v \<Rightarrow> v | None \<Rightarrow> 0),
       last_updated = last_updated (snd r)\<rparr>)"

subsection \<open>\<^verbatim>\<open>get_history\<close>\<close>

text \<open>
  \<open>cache_lookup\<close> is \<^verbatim>\<open>redis_client.get\<close> followed by \<^verbatim>\<open>if cached_data:\<close>; the
  client answers \<open>None\<close> for a missing key, a failed read and a missing connection
  alike. Every helper called in the body of \<^verbatim>\<open>get_history\<close> handles its own
  exceptions, so the body has no raising step.
\<close>

definition cache_lookup :: "env \<Rightarrow> string \<Rightarrow> pyval option" where
  "cache_lookup e key =
     (case cache_get e key of
        Some cached \<Rightarrow> if truthy cached then Some cached else None
      | None \<Rightarrow> None)"

definition history_response ::
  "pyval list \<Rightarrow> string \<Rightarrow> string \<Rightarrow> string \<Rightarrow> pyval \<Rightarrow> pyval"
where
  "history_response history_data source timestamp period err =
     PDict [(''data'', PList history_data),
            (''source'', PStr source),
            (''timestamp'', PStr timestamp),
            (''period'', PStr period),
            (''records'', PInt (int (length history_data))),
            (''error'', err)]"

definition get_history :: "str_fun \<Rightarrow> env \<Rightarrow> hist_table \<Rightarrow> string \<Rightarrow> string \<Rightarrow> outcome" where
  "get_history up e tbl symbol period =
     (let cache_key = ''history:'' @ up symbol @ '':'' @ period
      in case cache_lookup e cache_key of
           Some cached_data \<Rightarrow>
             \<lparr>result = cached_data, table = tbl, provider_log = [], cache_log = []\<rparr>
         | None \<Rightarrow>
             (case get_yahoo_symbol up e symbol of
                None \<Rightarrow>
                  \<lparr>result = history_response [] ''error'' (now_iso e) period
                              (PStr ''Symbol not found in database''),
                   table = tbl, provider_log = [], cache_log = []\<rparr>
              | Some yahoo_symbol \<Rightarrow>
                  if yahoo_symbol = [] then
                    \<lparr>result = history_response [] ''error'' (now_iso e) period
                                (PStr ''Symbol not found in database''),
                     table = tbl, provider_log = [], cache_log = []\<rparr>
                  else
                    (case get_period_dates up (today e) period of
                       (start_date, end_date) \<Rightarrow>
                         (let latest_db_date = get_latest_date_in_db up e tbl symbol;
                              need_fetch =
                                (case latest_db_date of
                                   None \<Rightarrow> True
                                 | Some d \<Rightarrow> d < today_check e - 1);
                              fetch_start_date =
                                (case latest_db_date of
                                   None \<Rightarrow> None
                                 | Some d \<Rightarrow> if d < today_check e - 1 then Some (d + 1) else None);
                              fetched =
                                (if need_fetch
                                 then fetch_and_store_history up e tbl yahoo_symbol symbol
                                        fetch_start_date
                                 else (tbl, []));
                              history_data =
                                get_history_from_db up e (fst fetched) symbol start_date
                                  (Some end_date);
                              response_data =
                                history_response history_data
                                  (if \<not> need_fetch then ''database'' else ''database+yfinance'')
                                  (now_iso e) period PNone
                          in \<lparr>result = response_data, table = fst fetched,
                              provider_log = snd fetched,
                              cache_log = [(cache_key, response_data, CACHE_TTL_HISTORICAL)]\<rparr>))))"


subsection \<open>\<^verbatim>\<open>_get_latest_db_quote\<close>\<close>

definition opt_str :: "string option \<Rightarrow> pyval" where
  "opt_str x = (case x of Some s \<Rightarrow> PStr s | None \<Rightarrow> PNone)"

text \<open>
  \<open>PNone\<close> is the \<^verbatim>\<open>None\<close> the function returns when there is no row, no stock,
  or an exception: a failed query, or \<^verbatim>\<open>float(None)\<close> on a null price column of the
  latest row.
\<close>

definition get_latest_db_quote :: "str_fun \<Rightarrow> env \<Rightarrow> hist_table \<Rightarrow> string \<Rightarrow> pyval" where
  "get_latest_db_quote up e tbl symbol =
     (case db_fault e QQuoteLatestRow of
        Some ex \<Rightarrow> PNone
      | None \<Rightarrow>
          (case latest_row tbl (up symbol) of
             None \<Rightarrow> PNone
           | Some latest \<Rightarrow>
               (case db_fault e QQuoteStock of
                  Some ex \<Rightarrow> PNone
                | None \<Rightarrow>
                    (case scalar_one_or_none
                            (filter (\<lambda>s. st_symbol s = up symbol) (stocks e)) of
                       Inl ex \<Rightarrow> PNone
                     | Inr None \<Rightarrow> PNone
                     | Inr (Some stock_info) \<Rightarrow>
                         (case (bar_close (snd latest), bar_high (snd latest),
                                bar_low (snd latest), bar_open (snd latest)) of
                            (Some c, Some h, Some l, Some opn) \<Rightarrow>
                              PDict
                                [(''stock'',
                                  PDict
                                    [(''symbol'', PStr (up symbol)),
                                     (''name'', opt_str (st_company_name stock_info)),
                                     (''exchange'', opt_str (st_exchange stock_info)),
                                     (''currentPrice'', PFloat c),
                                     (''change'', PFloat (Fin 0)),
                                     (''changePercent'', PFloat (Fin 0)),
                                     (''volume'',
                                      (case bar_volume (snd latest) of
                                         Some v \<Rightarrow> if v \<noteq> 0 then PInt v else PInt 0
                                       | None \<Rightarrow> PInt 0)),
                                     (''dayHigh'', PFloat h),
                                     (''dayLow'', PFloat l),
                                     (''open'', PFloat opn),
                                     (''sector'', opt_str (st_sector stock_info))]),
                                 (''source'', PStr ''database''),
                                 (''timestamp'', PStr (now_iso e))]
                          | _ \<Rightarrow> PNone)))))"

subsection \<open>\<^verbatim>\<open>_fetch_quote_from_yfinance\<close>\<close>

text \<open>
  The second method of the source: \<^verbatim>\<open>ticker.history(period=p)\<close> for each period in
  turn, keeping the last frame returned and stopping at the first that is not empty.
\<close>

fun try_periods ::
  "provider \<Rightarrow> string \<Rightarrow> string list \<Rightarrow> provider_bar list option
     \<Rightarrow> provider_bar list option \<times> provider_call list"
where
  "try_periods p ysym [] hist = (hist, [])"
| "try_periods p ysym (period # rest) hist =
     (case history p ysym (Period period) of
        Inl ex \<Rightarrow>
          (fst (try_periods p ysym rest hist),
           HistoryCall ysym (Period period) # snd (try_periods p ysym rest hist))
      | Inr h \<Rightarrow>
          if h \<noteq> [] then (Some h, [HistoryCall ysym (Period period)])
          else (fst (try_periods p ysym rest (Some h)),
                HistoryCall ysym (Period period) # snd (try_periods p ysym rest (Some h))))"

definition info_get :: "(string \<times> pyval) list \<Rightarrow> string \<Rightarrow> pyval" where
  "info_get info k = (case map_of info k of Some v \<Rightarrow> v | None \<Rightarrow> PNone)"

text \<open>
  The quote computed from a frame that is not empty, for the ticker whose
  \<^verbatim>\<open>info\<close> is read. \<^verbatim>\<open>int(...)\<close> on an infinite volume raises, and so may
  \<^verbatim>\<open>sanitize_for_json\<close>; the handler of the function then returns \<^verbatim>\<open>None\<close>.
\<close>

definition quote_of_hist ::
  "str_fun \<Rightarrow> env \<Rightarrow> string \<Rightarrow> stock_row \<Rightarrow> string \<Rightarrow> provider_bar list \<Rightarrow> pyval"
where
  "quote_of_hist up e symbol stock_info ticker hist =
     (let current_price = p_close (last hist);
          previous_price =
            (if length hist > 1 then p_close (hist ! (length hist - 2)) else current_price);
          change = fsub current_price previous_price;
          change_percent =
            (if previous_price \<noteq> Fin 0
             then PFloat (fmul (fdiv change previous_price) (Fin 100))
             else PInt 0);
          info = (case ticker_info (yf e) ticker of Inl ex \<Rightarrow> [] | Inr kvs \<Rightarrow> kvs)
      in case (if \<not> isna (p_volume (last hist)) then py_int (p_volume (last hist))
               else Inr 0) of
           Inl ex \<Rightarrow> PNone
         | Inr volume \<Rightarrow>
             (case sanitize_for_json (pd_generic_types e) (isoformat e)
                   (PDict
                      [(''symbol'', PStr (up symbol)),
                       (''name'', opt_str (st_company_name stock_info)),
                       (''exchange'', opt_str (st_exchange stock_info)),
                       (''currentPrice'', PFloat current_price),
                       (''change'', PFloat change),
                       (''changePercent'', change_percent),
                       (''volume'', PInt volume),
                       (''marketCap'', info_get info ''marketCap''),
                       (''pe'', info_get info ''trailingPE''),
                       (''sector'',
                        (case st_sector stock_info of
                           Some s \<Rightarrow>
                             if s \<noteq> [] then PStr s
                             else (case map_of info ''sector'' of
                                     Some v \<Rightarrow> v | None \<Rightarrow> PStr ''Unknown'')
                         | None \<Rightarrow>
                             (case map_of info ''sector'' of
                                Some v \<Rightarrow> v | None \<Rightarrow> PStr ''Unknown''))),
                       (''high52Week'', info_get info ''fiftyTwoWeekHigh''),
                       (''low52Week'', info_get info ''fiftyTwoWeekLow''),
                       (''dividendYield'', info_get info ''dividendYield''),
                       (''dayHigh'', PFloat (p_high (last hist))),
                       (''dayLow'', PFloat (p_low (last hist))),
                       (''open'', PFloat (p_open (last hist)))]) of
                Inl ex \<Rightarrow> PNone
              | Inr stock \<Rightarrow>
                  PDict
                    [(''stock'', stock),
                     (''source'', PStr ''yfinance''),
                     (''timestamp'', PStr (now_iso e))]))"

definition fetch_quote_from_yfinance :: "str_fun \<Rightarrow> env \<Rightarrow> string \<Rightarrow> pyval \<times> provider_call list" where
  "fetch_quote_from_yfinance up e symbol =
     (case db_fault e QFetchStock of
        Some ex \<Rightarrow> (PNone, [])
      | None \<Rightarrow>
          (case scalar_one_or_none
                  (filter (\<lambda>s. st_symbol s = up symbol) (stocks e)) of
             Inl ex \<Rightarrow> (PNone, [])
           | Inr None \<Rightarrow> (PNone, [])
           | Inr (Some stock_info) \<Rightarrow>
               (let yahoo_symbol = st_yahoo_symbol stock_info
                in case get_safe_ticker_data_sync up (yf e) yahoo_symbol of
                     (Some (variant, hist), calls) \<Rightarrow>
                       (quote_of_hist up e symbol stock_info variant hist,
                        calls @ [InfoCall variant])
                   | (None, calls) \<Rightarrow>
                       (case try_periods (yf e) yahoo_symbol [''2d'', ''5d'', ''1mo''] None of
                          (None, calls2) \<Rightarrow> (PNone, calls @ calls2)
                        | (Some hist, calls2) \<Rightarrow>
                            if hist = [] then (PNone, calls @ calls2)
                            else (quote_of_hist up e symbol stock_info yahoo_symbol hist,
                                  calls @ calls2 @ [InfoCall yahoo_symbol])))))"

subsection \<open>\<^verbatim>\<open>get_quote\<close>\<close>

definition get_quote :: "str_fun \<Rightarrow> env \<Rightarrow> hist_table \<Rightarrow> string \<Rightarrow> outcome" where
  "get_quote up e tbl symbol =
     (let cache_key = ''quote:'' @ up symbol
      in case cache_lookup e cache_key of
           Some cached_data \<Rightarrow>
             \<lparr>result = cached_data, table = tbl, provider_log = [], cache_log = []\<rparr>
         | None \<Rightarrow>
             (let db_quote =
                    (if \<not> is_market_open (ist_now e) then get_latest_db_quote up e tbl symbol
                     else PNone)
              in if \<not> is_market_open (ist_now e) \<and> truthy db_quote then
                   \<lparr>result = db_quote, table = tbl, provider_log = [],
                    cache_log = [(cache_key, db_quote, CACHE_TTL_REALTIME * 10)]\<rparr>
                 else
                   (case fetch_quote_from_yfinance up e symbol of
                      (quote_data, calls) \<Rightarrow>
                        if truthy quote_data then
                          \<lparr>result = quote_data, table = tbl, provider_log = calls,
                           cache_log =
                             [(cache_key, quote_data,
                               (if is_market_open (ist_now_ttl e) then CACHE_TTL_REALTIME
                                else CACHE_TTL_REALTIME * 10))]\<rparr>
                        else
                          \<lparr>result = PNone, table = tbl, provider_log = calls,
                           cache_log = []\<rparr>)))"

section \<open>\<^verbatim>\<open>app/services/websocket_service.py\<close>\<close>

subsection \<open>One iteration of \<^verbatim>\<open>_update_symbol_loop\<close>\<close>

text \<open>
  An iteration publishes a tick (the \<^verbatim>\<open>redis_client.set\<close> call, whose value is then
  broadcast), finds no data, or raises into the handler of the loop.
\<close>

datatype tick = Published string pyval int | NoData | TickError py_exception

definition update_symbol_tick :: "str_fun \<Rightarrow> provider \<Rightarrow> string \<Rightarrow> string \<Rightarrow> tick" where
  "update_symbol_tick up p timestamp symbol =
     (case fst (get_safe_ticker_data_sync up p symbol) of
        None \<Rightarrow> NoData
      | Some (variant, hist) \<Rightarrow>
          (case ticker_info p variant of
             Inl ex \<Rightarrow> TickError ex
           | Inr info \<Rightarrow>
               (let latest = last hist
                in case as_float (case map_of info ''previousClose'' of
                                    Some v \<Rightarrow> v
                                  | None \<Rightarrow> PFloat (p_close latest)) of
                     Inl ex \<Rightarrow> TickError ex
                   | Inr prev_close \<Rightarrow>
                       (case py_int (p_volume latest) of
                          Inl ex \<Rightarrow> TickError ex
                        | Inr volume \<Rightarrow>
                            Published (''realtime:'' @ symbol)
                              (PDict
                                 [(''symbol'', PStr symbol),
                                  (''price'', PFloat (p_close latest)),
                                  (''change'', PFloat (fsub (p_close latest) prev_close)),
                                  (''change_percent'',
                                   PFloat
                                     (fmul (fdiv (fsub (p_close latest) prev_close) prev_close)
                                        (Fin 100))),
                                  (''volume'', PInt volume),
                                  (''timestamp'', PStr timestamp)])
                              30))))"

subsection \<open>\<^verbatim>\<open>WebSocketManager\<close>\<close>

text \<open>
  A Python set is kept as a list without repetitions, in some iteration order. The
  sockets of \<open>active_connections\<close> are left out, a task is the number of its
  creation, and \<open>tasks_cancelled\<close> collects the tasks on which \<^verbatim>\<open>cancel()\<close> was called.
\<close>

definition set_add :: "'a \<Rightarrow> 'a list \<Rightarrow> 'a list" where
  "set_add x xs = (if x \<in> set xs then xs else xs @ [x])"

definition set_discard :: "'a \<Rightarrow> 'a list \<Rightarrow> 'a list" where
  "set_discard x xs = removeAll x xs"

record ws_manager =
  active_connections :: "string list"
  subscriptions :: "string \<rightharpoonup> string list"
  symbol_subscribers :: "string \<rightharpoonup> string list"
  update_tasks :: "string \<rightharpoonup> nat"
  tasks_created :: nat
  tasks_cancelled :: "nat list"

definition ws_init :: ws_manager where
  "ws_init =
     \<lparr>active_connections = [], subscriptions = Map.empty,
      symbol_subscribers = Map.empty, update_tasks = Map.empty,
      tasks_created = 0, tasks_cancelled = []\<rparr>"

definition connect :: "ws_manager \<Rightarrow> string \<Rightarrow> ws_manager" where
  "connect m client_id =
     m\<lparr>active_connections := set_add client_id (active_connections m),
       subscriptions := (subscriptions m)(client_id \<mapsto> [])\<rparr>"

definition unsubscribe_symbol :: "str_fun \<Rightarrow> ws_manager \<Rightarrow> string \<Rightarrow> string \<Rightarrow> ws_manager" where
  "unsubscribe_symbol up m client_id raw =
     (let symbol = up raw;
          m1 = (case subscriptions m client_id of
                  Some ss \<Rightarrow>
                    m\<lparr>subscriptions := (subscriptions m)(client_id \<mapsto> set_discard symbol ss)\<rparr>
                | None \<Rightarrow> m)
      in case symbol_subscribers m1 symbol of
           None \<Rightarrow> m1
         | Some cs \<Rightarrow>
             if set_discard client_id cs = [] then
               (let m2 = (case update_tasks m1 symbol of
                            Some t \<Rightarrow>
                              m1\<lparr>update_tasks := (update_tasks m1)(symbol := None),
                                 tasks_cancelled := tasks_cancelled m1 @ [t]\<rparr>
                          | None \<Rightarrow> m1)
                in m2\<lparr>symbol_subscribers := (symbol_subscribers m2)(symbol := None)\<rparr>)
             else
               m1\<lparr>symbol_subscribers :=
                    (symbol_subscribers m1)(symbol \<mapsto> set_discard client_id cs)\<rparr>)"

definition disconnect :: "str_fun \<Rightarrow> ws_manager \<Rightarrow> string \<Rightarrow> ws_manager" where
  "disconnect up m client_id =
     (let m1 = m\<lparr>active_connections := set_discard client_id (active_connections m)\<rparr>
      in case subscriptions m1 client_id of
           None \<Rightarrow> m1
         | Some ss \<Rightarrow>
             (let m2 = fold (\<lambda>symbol st. unsubscribe_symbol up st client_id symbol) ss m1
              in m2\<lparr>subscriptions := (subscriptions m2)(client_id := None)\<rparr>))"

text \<open>The body of the first loop of \<^verbatim>\<open>subscribe_symbols\<close>. The client is in
  \<open>subscriptions\<close> there, as the function has returned otherwise.\<close>

definition subscribe_one :: "str_fun \<Rightarrow> str_fun \<Rightarrow> string \<Rightarrow> string \<Rightarrow> ws_manager \<Rightarrow> ws_manager" where
  "subscribe_one up strp client_id raw m =
     (let symbol = strp (up raw)
      in if symbol \<noteq> [] then
           (let m1 = (case subscriptions m client_id of
                        Some ss \<Rightarrow>
                          m\<lparr>subscriptions := (subscriptions m)(client_id \<mapsto> set_add symbol ss)\<rparr>
                      | None \<Rightarrow> m);
                cs = (case symbol_subscribers m1 symbol of Some cs \<Rightarrow> cs | None \<Rightarrow> []);
                m2 = m1\<lparr>symbol_subscribers :=
                          (symbol_subscribers m1)(symbol \<mapsto> set_add client_id cs)\<rparr>
            in if length (set_add client_id cs) = 1 then
                 m2\<lparr>update_tasks := (update_tasks m2)(symbol \<mapsto> tasks_created m2),
                    tasks_created := Suc (tasks_created m2)\<rparr>
               else m2)
         else m)"

text \<open>
  The body of the second loop: when a cached tick exists for the symbol and sending
  it raises, \<^verbatim>\<open>send_to_client\<close> disconnects the client. \<open>failing\<close> lists the
  upper-cased symbols for which that happens.
\<close>

definition send_cached :: "str_fun \<Rightarrow> string \<Rightarrow> string list \<Rightarrow> string \<Rightarrow> ws_manager \<Rightarrow> ws_manager" where
  "send_cached up client_id failing raw m =
     (if up raw \<in> set failing \<and> client_id \<in> set (active_connections m)
      then disconnect up m client_id else m)"

definition subscribe_symbols ::
  "str_fun \<Rightarrow> str_fun \<Rightarrow> ws_manager \<Rightarrow> string \<Rightarrow> string list \<Rightarrow> string list \<Rightarrow> ws_manager"
where
  "subscribe_symbols up strp m client_id symbols failing =
     (case subscriptions m client_id of
        None \<Rightarrow> m
      | Some ss \<Rightarrow>
          fold (send_cached up client_id failing) symbols
            (fold (subscribe_one up strp client_id) symbols m))"

datatype ws_op =
    Connect string
  | Disconnect string
  | Subscribe string "string list" "string list"
  | Unsubscribe string string

fun apply_op :: "str_fun \<Rightarrow> str_fun \<Rightarrow> ws_manager \<Rightarrow> ws_op \<Rightarrow> ws_manager" where
  "apply_op up strp m (Connect c) = connect m c"
| "apply_op up strp m (Disconnect c) = disconnect up m c"
| "apply_op up strp m (Subscribe c symbols failing) = subscribe_symbols up strp m c symbols failing"
| "apply_op up strp m (Unsubscribe c symbol) = unsubscribe_symbol up m c symbol"

definition run :: "str_fun \<Rightarrow> str_fun \<Rightarrow> ws_op list \<Rightarrow> ws_manager" where
  "run up strp ops = foldl (apply_op up strp) ws_init ops"


text \<open>The reference-counting invariant: a symbol has a task in \<open>update_tasks\<close>
  exactly when it has a subscriber set that is not empty.\<close>

definition task_invariant :: "ws_manager \<Rightarrow> bool" where
  "task_invariant m =
     (\<forall>symbol. (update_tasks m symbol \<noteq> None)
                = (\<exists>cs. symbol_subscribers m symbol = Some cs \<and> cs \<noteq> []))"

section \<open>Concrete scenarios\<close>

text \<open>
  The inputs at which the theorems below are instantiated: a listed stock, provider
  answers with a finite and with a NaN close, a stored bar, and a service environment
  on a Sunday at noon, with a pandas that has the names \<^verbatim>\<open>sanitize_for_json\<close> reads;
  other times and a failing latest-date query are put in where needed.
\<close>

definition tcs_stock :: stock_row where
  "tcs_stock =
     \<lparr>st_symbol = ''TCS'', st_yahoo_symbol = ''TCS.NS'',
      st_company_name = Some ''Tata Consultancy Services'',
      st_exchange = Some ''NSE'', st_sector = Some ''IT''\<rparr>"

definition good_bar :: provider_bar where
  "good_bar =
     \<lparr>p_date = 20000, p_open = Fin 100, p_high = Fin 102, p_low = Fin 99,
      p_close = Fin 101, p_volume = Fin 5000\<rparr>"

definition nan_bar :: provider_bar where
  "nan_bar =
     \<lparr>p_date = 20000, p_open = Fin 100, p_high = Fin 102, p_low = Fin 99,
      p_close = NaN, p_volume = Fin 5000\<rparr>"

definition good_provider :: provider where
  "good_provider =
     \<lparr>history = (\<lambda>variant request. if variant = ''TCS.NS'' then Inr [good_bar] else Inr []),
      ticker_info = (\<lambda>variant. Inr [(''previousClose'', PFloat (Fin 100))])\<rparr>"

definition nan_provider :: provider where
  "nan_provider =
     \<lparr>history = (\<lambda>variant request. if variant = ''TCS.NS'' then Inr [nan_bar] else Inr []),
      ticker_info = (\<lambda>variant. Inr [(''previousClose'', PFloat (Fin 100))])\<rparr>"

definition failing_provider :: provider where
  "failing_provider =
     \<lparr>history = (\<lambda>variant request. Inl (PyException ''ConnectionError'')),
      ticker_info = (\<lambda>variant. Inl (PyException ''ConnectionError''))\<rparr>"

definition stored_bar :: "int \<Rightarrow> hist_row" where
  "stored_bar d =
     ((''TCS'', d),
      \<lparr>bar_open = Some (Fin 100), bar_high = Some (Fin 102), bar_low = Some (Fin 99),
       bar_close = Some (Fin 101), bar_volume = Some 5000, last_updated = 0\<rparr>)"

definition null_bar :: "int \<Rightarrow> hist_row" where
  "null_bar d =
     ((''TCS'', d),
      \<lparr>bar_open = None, bar_high = None, bar_low = None,
       bar_close = None, bar_volume = None, last_updated = 0\<rparr>)"

text \<open>Two clients connect and each subscribes to \<^verbatim>\<open>' tcs'\<close>, with no send failing.\<close>

definition padded_subscribes :: "ws_op list" where
  "padded_subscribes =
     [Connect ''x'', Connect ''y'',
      Subscribe ''x'' ['' tcs''] [], Subscribe ''y'' ['' tcs''] []]"

definition sunday_noon :: ist_time where
  "sunday_noon = \<lparr>weekday = 6, hour = 12, minute = 0, second = 0, microsecond = 0\<rparr>"




definition latest_date_failing :: "db_query \<Rightarrow> py_exception option" where
  "latest_date_failing q =
     (if q = QLatestDate then Some (PyException ''OperationalError'') else None)"

definition base_env :: env where
  "base_env =
     \<lparr>cache_get = (\<lambda>key. None), stocks = [tcs_stock], db_fault = (\<lambda>q. None),
      db_now = 7, yf = good_provider, today = 20000, today_check = 20000,
      today_fetch = 20000, ist_now = sunday_noon, ist_now_ttl = sunday_noon,
      now_iso = ''2024-10-06T12:00:00'', strftime = (\<lambda>d. ''date''),
      isoformat = (\<lambda>t. ''instant''), pd_generic_types = True\<rparr>"




section \<open>Properties\<close>

subsection \<open>Evaluation rules and the sanitizer\<close>

lemmas str_simps = ascii_upper_def upper_char_def lstrip_def endswith_def ascii_strip_def
  is_space_def

lemma sequence_results_map:
  "sequence_results (map f xs) = Inr ys \<Longrightarrow> \<forall>y \<in> set ys. \<exists>x \<in> set xs. f x = Inr y"
proof (induction xs arbitrary: ys)
  case Nil
  then show ?case by simp
next
  case (Cons x xs)
  then show ?case
    by (cases "f x"; cases "sequence_results (map f xs)") auto
qed

lemma item_result_Inr:
  "item_result k r = Inr kv \<Longrightarrow> r = Inr (snd kv)"
  by (cases r) (auto simp: item_result_def)

lemma dict_result_items:
  assumes "dict_result (map (\<lambda>kv. item_result (fst kv) (f (snd kv))) kvs) = Inr w"
  shows "\<exists>out. w = PDict out
               \<and> (\<forall>kv' \<in> set out. \<exists>kv \<in> set kvs. f (snd kv) = Inr (snd kv'))"
proof -
  from assms obtain out
    where s: "sequence_results (map (\<lambda>kv. item_result (fst kv) (f (snd kv))) kvs) = Inr out"
      and w: "w = PDict out"
    by (auto simp: dict_result_def split: sum.splits)
  from sequence_results_map [OF s]
  have "\<forall>kv' \<in> set out. \<exists>kv \<in> set kvs. item_result (fst kv) (f (snd kv)) = Inr kv'" .
  then have "\<forall>kv' \<in> set out. \<exists>kv \<in> set kvs. f (snd kv) = Inr (snd kv')"
    using item_result_Inr by blast
  with w show ?thesis by blast
qed

text \<open>When \<^verbatim>\<open>sanitize_for_json\<close> returns, its output holds no NaN, no infinity and no
  datetime, whatever the input.\<close>

lemma sanitize_for_json_safe:
  "sanitize_for_json g fmt v = Inr w \<Longrightarrow> json_safe w"
proof (induction g fmt v arbitrary: w rule: sanitize_for_json.induct)
  case (1 g fmt kvs)
  from dict_result_items [of "sanitize_for_json g fmt" kvs w] "1.prems"
  obtain out where "w = PDict out"
    and "\<forall>kv' \<in> set out. \<exists>kv \<in> set kvs. sanitize_for_json g fmt (snd kv) = Inr (snd kv')"
    by auto
  with "1.IH" show ?case by (fastforce simp: list_all_iff)
next
  case (2 g fmt xs)
  then obtain ys where s: "sequence_results (map (sanitize_for_json g fmt) xs) = Inr ys"
    and w: "w = PList ys"
    by (auto split: sum.splits)
  from sequence_results_map [OF s] "2.IH" w show ?case
    by (fastforce simp: list_all_iff)
next
  case (3 g fmt kvs)
  from dict_result_items [of "sanitize_for_json g fmt" kvs w] "3.prems"
  obtain out where "w = PDict out"
    and "\<forall>kv' \<in> set out. \<exists>kv \<in> set kvs. sanitize_for_json g fmt (snd kv) = Inr (snd kv')"
    by auto
  with "3.IH" show ?case by (fastforce simp: list_all_iff)
next
  case (4 g fmt rows)
  from dict_result_items [of "sanitize_for_json g fmt" rows w] "4.prems"
  obtain out where "w = PDict out"
    and "\<forall>kv' \<in> set out. \<exists>kv \<in> set rows. sanitize_for_json g fmt (snd kv) = Inr (snd kv')"
    by auto
  with "4.IH" show ?case by (fastforce simp: list_all_iff)
next
  case (5 g fmt f)
  then show ?case by (cases f) (auto simp: scalar_result_def split: if_splits)
qed (auto simp: scalar_result_def split: if_splits)

text \<open>With a pandas that lacks the names read by the float test, a dictionary that
  holds a scalar first is not sanitized: the call raises.\<close>

lemma sanitize_for_json_raises:
  "\<not> g \<Longrightarrow> sanitize_for_json g fmt (PDict ((k, PStr s) # kvs))
          = Inl (PyException
              ''AttributeError: module pandas.core.dtypes.generic has no attribute floating'')"
  by (simp add: dict_result_def item_result_def scalar_result_def)

text \<open>The fields of the scenario environment.\<close>

lemma base_env_fields:
  "cache_get base_env = (\<lambda>key. None)" "stocks base_env = [tcs_stock]"
  "db_fault base_env = (\<lambda>q. None)" "db_now base_env = 7" "yf base_env = good_provider"
  "today base_env = 20000" "today_check base_env = 20000" "today_fetch base_env = 20000"
  "ist_now base_env = sunday_noon" "ist_now_ttl base_env = sunday_noon"
  "now_iso base_env = ''2024-10-06T12:00:00''" "strftime base_env = (\<lambda>d. ''date'')"
  "isoformat base_env = (\<lambda>t. ''instant'')" "pd_generic_types base_env = True"
  by (simp_all add: base_env_def)

subsection \<open>Period windows\<close>

text \<open>
  C6, as stated, fails: a period outside the mapping is not resolved to the widest
  lookback of the mapping (five years, 1825 days), nor to the open-ended window of
  \<^verbatim>\<open>ALL\<close>. For \<^verbatim>\<open>XYZ\<close> the window starts 180 days before today.
\<close>

theorem get_period_dates_unknown_counterexample:
  "map_of period_mapping (ascii_upper ''XYZ'') = None \<and> ascii_upper ''XYZ'' \<noteq> ''ALL''
   \<and> Max (snd ` set period_mapping) = 1825
   \<and> get_period_dates ascii_upper 20000 ''XYZ'' = (Some (20000 - 180), 20000)
   \<and> fst (get_period_dates ascii_upper 20000 ''XYZ'') \<noteq> Some (20000 - Max (snd ` set period_mapping))
   \<and> fst (get_period_dates ascii_upper 20000 ''XYZ'') \<noteq> None"
  by (simp add: get_period_dates_def period_mapping_def ascii_upper_def upper_char_def)

text \<open>
  C6, amended: for every period string that, upper-cased, is neither a key of the
  period mapping nor \<^verbatim>\<open>ALL\<close>, \<^verbatim>\<open>_get_period_dates\<close> returns the window of the
  \<^verbatim>\<open>6M\<close> entry, from 180 days before today to today, and does not fail.
\<close>

theorem get_period_dates_unknown_default:
  assumes "map_of period_mapping (up period) = None" and "up period \<noteq> ''ALL''"
  shows "get_period_dates up today_date period = (Some (today_date - 180), today_date)
         \<and> map_of period_mapping ''6M'' = Some 180"
  using assms by (simp add: get_period_dates_def) (simp add: period_mapping_def)

theorem get_period_dates_unknown_default_witness:
  "map_of period_mapping (ascii_upper ''2w'') = None \<and> ascii_upper ''2w'' \<noteq> ''ALL''
   \<and> get_period_dates ascii_upper 20000 ''2w'' = (Some 19820, 20000)"
proof -
  have a: "map_of period_mapping (ascii_upper ''2w'') = None"
    by (simp add: period_mapping_def ascii_upper_def upper_char_def)
  have b: "ascii_upper ''2w'' \<noteq> ''ALL''"
    by (simp add: ascii_upper_def upper_char_def)
  from get_period_dates_unknown_default [of ascii_upper "''2w''" 20000, OF a b] a b
  show ?thesis by simp
qed

subsection \<open>The poll task\<close>

text \<open>
  C9 fails on the code: when the latest provider bar of a subscribed symbol has a NaN
  close, the iteration of \<^verbatim>\<open>_update_symbol_loop\<close> writes a tick holding NaN to the
  cache, without passing it through \<^verbatim>\<open>sanitize_for_json\<close>.
\<close>

theorem update_symbol_tick_nan:
  "(\<exists>d. update_symbol_tick ascii_upper nan_provider ''2024-10-07T12:00:00'' ''TCS''
          = Published ''realtime:TCS'' d 30
        \<and> dict_get d ''price'' = Some (PFloat NaN)
        \<and> \<not> json_safe d)"
  apply (simp add: update_symbol_tick_def get_safe_ticker_data_sync_def symbol_variations_def
        str_simps INDEX_SYMBOLS_def nan_provider_def nan_bar_def as_float_def py_int_def
        dict_get_def fsub_def)
  done



subsection \<open>Symbol resolution\<close>

lemma try_variants_two:
  "try_variants p [v1, v2] = first_then_fallback p v1 v2"
  by (simp add: first_then_fallback_def six_month_data_def split: sum.splits)

lemma index_symbol_not_bse: "c \<in> set INDEX_SYMBOLS \<Longrightarrow> \<not> endswith c ''.BSE''"
  by (auto simp: INDEX_SYMBOLS_def endswith_def)

text \<open>
  C7, as stated, fails: with \<^verbatim>\<open>.NS\<close> the primary exchange (it is tried first for a
  plain ticker), a ticker ending in \<^verbatim>\<open>.BSE\<close> is not resolved to the \<^verbatim>\<open>.NS\<close> variant
  first and the BSE variant \<^verbatim>\<open>.BO\<close> second; the order is the reverse. The tickers
  here are ASCII, where \<^verbatim>\<open>str.upper\<close> is \<open>ascii_upper\<close>.
\<close>

theorem symbol_variations_bse_counterexample:
  "endswith (ascii_upper (lstrip (CHR ''$'') ''TCS.BSE'')) ''.BSE''
   \<and> symbol_variations ascii_upper ''TCS'' = [''TCS.NS'', ''TCS.BO'']
   \<and> symbol_variations ascii_upper ''TCS.BSE'' = [''TCS.BO'', ''TCS.NS'']
   \<and> symbol_variations ascii_upper ''TCS.BSE'' \<noteq> [''TCS.NS'', ''TCS.BO'']"
  by (simp add: symbol_variations_def str_simps INDEX_SYMBOLS_def)

text \<open>
  C7, amended: whatever \<^verbatim>\<open>str.upper\<close> does, for every ticker whose cleaned form
  (leading \<^verbatim>\<open>$\<close> removed, upper-cased) ends in \<^verbatim>\<open>.BSE\<close> the candidates are exactly
  two, the BSE variant \<^verbatim>\<open>.BO\<close> first and the \<^verbatim>\<open>.NS\<close> variant second, and the
  resolver requests the six-month history of the first, returns it when it is not
  empty, and otherwise (empty, or the request raised) requests the second as
  fallback and returns that when it is not empty, and nothing when it is. For every
  plain ticker (no index symbol, no recognized suffix) the same holds with the
  \<^verbatim>\<open>.NS\<close> variant first and the \<^verbatim>\<open>.BO\<close> variant second.
\<close>

theorem symbol_variations_order:
  "(endswith (up (lstrip (CHR ''$'') symbol)) ''.BSE'' \<longrightarrow>
      symbol_variations up symbol
        = [take (length (up (lstrip (CHR ''$'') symbol)) - 4) (up (lstrip (CHR ''$'') symbol)) @ ''.BO'',
           take (length (up (lstrip (CHR ''$'') symbol)) - 4) (up (lstrip (CHR ''$'') symbol)) @ ''.NS'']
      \<and> get_safe_ticker_data_sync up p symbol
        = first_then_fallback p
            (take (length (up (lstrip (CHR ''$'') symbol)) - 4) (up (lstrip (CHR ''$'') symbol)) @ ''.BO'')
            (take (length (up (lstrip (CHR ''$'') symbol)) - 4) (up (lstrip (CHR ''$'') symbol)) @ ''.NS''))
   \<and> (up (lstrip (CHR ''$'') symbol) \<notin> set INDEX_SYMBOLS
        \<and> \<not> endswith (up (lstrip (CHR ''$'') symbol)) ''.BSE''
        \<and> \<not> endswith (up (lstrip (CHR ''$'') symbol)) ''.NS''
        \<and> \<not> endswith (up (lstrip (CHR ''$'') symbol)) ''.BO'' \<longrightarrow>
      symbol_variations up symbol
        = [up (lstrip (CHR ''$'') symbol) @ ''.NS'', up (lstrip (CHR ''$'') symbol) @ ''.BO'']
      \<and> get_safe_ticker_data_sync up p symbol
        = first_then_fallback p
            (up (lstrip (CHR ''$'') symbol) @ ''.NS'') (up (lstrip (CHR ''$'') symbol) @ ''.BO''))"
proof (intro conjI impI)
  assume b: "endswith (up (lstrip (CHR ''$'') symbol)) ''.BSE''"
  then have "up (lstrip (CHR ''$'') symbol) \<notin> set INDEX_SYMBOLS"
    using index_symbol_not_bse by blast
  with b show v: "symbol_variations up symbol
        = [take (length (up (lstrip (CHR ''$'') symbol)) - 4) (up (lstrip (CHR ''$'') symbol)) @ ''.BO'',
           take (length (up (lstrip (CHR ''$'') symbol)) - 4) (up (lstrip (CHR ''$'') symbol)) @ ''.NS'']"
    by (simp add: symbol_variations_def Let_def)
  show "get_safe_ticker_data_sync up p symbol
        = first_then_fallback p
            (take (length (up (lstrip (CHR ''$'') symbol)) - 4) (up (lstrip (CHR ''$'') symbol)) @ ''.BO'')
            (take (length (up (lstrip (CHR ''$'') symbol)) - 4) (up (lstrip (CHR ''$'') symbol)) @ ''.NS'')"
    unfolding get_safe_ticker_data_sync_def v by (rule try_variants_two)
next
  assume "up (lstrip (CHR ''$'') symbol) \<notin> set INDEX_SYMBOLS
        \<and> \<not> endswith (up (lstrip (CHR ''$'') symbol)) ''.BSE''
        \<and> \<not> endswith (up (lstrip (CHR ''$'') symbol)) ''.NS''
        \<and> \<not> endswith (up (lstrip (CHR ''$'') symbol)) ''.BO''"
  then show v: "symbol_variations up symbol
        = [up (lstrip (CHR ''$'') symbol) @ ''.NS'', up (lstrip (CHR ''$'') symbol) @ ''.BO'']"
    by (simp add: symbol_variations_def Let_def)
  show "get_safe_ticker_data_sync up p symbol
        = first_then_fallback p
            (up (lstrip (CHR ''$'') symbol) @ ''.NS'') (up (lstrip (CHR ''$'') symbol) @ ''.BO'')"
    unfolding get_safe_ticker_data_sync_def v by (rule try_variants_two)
qed

theorem symbol_variations_order_witness:
  "endswith (ascii_upper (lstrip (CHR ''$'') ''tcs.bse'')) ''.BSE''
   \<and> symbol_variations ascii_upper ''tcs.bse'' = [''TCS.BO'', ''TCS.NS'']
   \<and> six_month_data good_provider ''TCS.BO'' = None
   \<and> get_safe_ticker_data_sync ascii_upper good_provider ''tcs.bse''
       = (Some (''TCS.NS'', [good_bar]),
          [HistoryCall ''TCS.BO'' (Period ''6mo''), HistoryCall ''TCS.NS'' (Period ''6mo'')])
   \<and> ascii_upper (lstrip (CHR ''$'') ''$tcs'') \<notin> set INDEX_SYMBOLS
   \<and> \<not> endswith (ascii_upper (lstrip (CHR ''$'') ''$tcs'')) ''.BSE''
   \<and> \<not> endswith (ascii_upper (lstrip (CHR ''$'') ''$tcs'')) ''.NS''
   \<and> \<not> endswith (ascii_upper (lstrip (CHR ''$'') ''$tcs'')) ''.BO''
   \<and> symbol_variations ascii_upper ''$tcs'' = [''TCS.NS'', ''TCS.BO'']
   \<and> get_safe_ticker_data_sync ascii_upper good_provider ''$tcs''
       = (Some (''TCS.NS'', [good_bar]), [HistoryCall ''TCS.NS'' (Period ''6mo'')])
   \<and> get_safe_ticker_data_sync ascii_upper failing_provider ''$tcs''
       = (None, [HistoryCall ''TCS.NS'' (Period ''6mo''), HistoryCall ''TCS.BO'' (Period ''6mo'')])"
proof -
  have a: "endswith (ascii_upper (lstrip (CHR ''$'') ''tcs.bse'')) ''.BSE''"
    by (simp add: str_simps)
  have b: "ascii_upper (lstrip (CHR ''$'') ''$tcs'') \<notin> set INDEX_SYMBOLS
   \<and> \<not> endswith (ascii_upper (lstrip (CHR ''$'') ''$tcs'')) ''.BSE''
   \<and> \<not> endswith (ascii_upper (lstrip (CHR ''$'') ''$tcs'')) ''.NS''
   \<and> \<not> endswith (ascii_upper (lstrip (CHR ''$'') ''$tcs'')) ''.BO''"
    by (simp add: str_simps INDEX_SYMBOLS_def)
  have c: "ascii_upper (lstrip (CHR ''$'') ''tcs.bse'') = ''TCS.BSE''"
    by (simp add: str_simps)
  have d: "ascii_upper (lstrip (CHR ''$'') ''$tcs'') = ''TCS''"
    by (simp add: str_simps)
  have e: "six_month_data good_provider ''TCS.BO'' = None"
    by (simp add: six_month_data_def good_provider_def)
  have f: "six_month_data good_provider ''TCS.NS'' = Some [good_bar]"
    by (simp add: six_month_data_def good_provider_def)
  have g: "six_month_data failing_provider ''TCS.NS'' = None"
          "six_month_data failing_provider ''TCS.BO'' = None"
    by (simp_all add: six_month_data_def failing_provider_def)
  from symbol_variations_order [of ascii_upper "''tcs.bse''" good_provider] a c e f
  have 1: "symbol_variations ascii_upper ''tcs.bse'' = [''TCS.BO'', ''TCS.NS'']
    \<and> get_safe_ticker_data_sync ascii_upper good_provider ''tcs.bse''
       = (Some (''TCS.NS'', [good_bar]),
          [HistoryCall ''TCS.BO'' (Period ''6mo''), HistoryCall ''TCS.NS'' (Period ''6mo'')])"
    by (simp add: first_then_fallback_def)
  from symbol_variations_order [of ascii_upper "''$tcs''" good_provider] b d f
  have 2: "symbol_variations ascii_upper ''$tcs'' = [''TCS.NS'', ''TCS.BO'']
    \<and> get_safe_ticker_data_sync ascii_upper good_provider ''$tcs''
       = (Some (''TCS.NS'', [good_bar]), [HistoryCall ''TCS.NS'' (Period ''6mo'')])"
    by (simp add: first_then_fallback_def)
  from symbol_variations_order [of ascii_upper "''$tcs''" failing_provider] b d g
  have 3: "get_safe_ticker_data_sync ascii_upper failing_provider ''$tcs''
       = (None, [HistoryCall ''TCS.NS'' (Period ''6mo''), HistoryCall ''TCS.BO'' (Period ''6mo'')])"
    by (simp add: first_then_fallback_def)
  from a b e 1 2 3 show ?thesis by blast
qed


subsection \<open>Reading history back\<close>

lemma set_order_by_date: "set (order_by_date rows) = set rows"
  by (simp add: order_by_date_def)

text \<open>
  C10, as stated, fails for the four price fields: a caller of \<^verbatim>\<open>get_history\<close> can
  tell a stored null from a stored zero. For the bar of 19999 with every value column
  null, the response has the integer \<open>0\<close> in \<^verbatim>\<open>open\<close>; for the same bar with zeros
  stored it has the float \<open>0.0\<close>, and the two responses differ.
\<close>

theorem null_bars_read_as_zero_counterexample:
  "bar_open (snd (null_bar 19999)) = None
   \<and> bar_open (snd (zero_filled (null_bar 19999))) = Some (Fin 0)
   \<and> get_history_from_db ascii_upper base_env [null_bar 19999] ''TCS'' (Some 19970) (Some 20000)
       = [PDict [(''timestamp'', PStr ''date''), (''open'', PInt 0), (''high'', PInt 0),
                 (''low'', PInt 0), (''close'', PInt 0), (''volume'', PInt 0)]]
   \<and> get_history_from_db ascii_upper base_env [zero_filled (null_bar 19999)] ''TCS''
         (Some 19970) (Some 20000)
       = [PDict [(''timestamp'', PStr ''date''), (''open'', PFloat (Fin 0)),
                 (''high'', PFloat (Fin 0)), (''low'', PFloat (Fin 0)),
                 (''close'', PFloat (Fin 0)), (''volume'', PInt 0)]]
   \<and> dict_get (result (get_history ascii_upper base_env [null_bar 19999] ''TCS'' ''1M'')) ''data''
       = Some (PList [PDict [(''timestamp'', PStr ''date''), (''open'', PInt 0),
                 (''high'', PInt 0), (''low'', PInt 0), (''close'', PInt 0),
                 (''volume'', PInt 0)]])
   \<and> dict_get (result (get_history ascii_upper base_env [zero_filled (null_bar 19999)] ''TCS''
         ''1M'')) ''data''
       = Some (PList [PDict [(''timestamp'', PStr ''date''), (''open'', PFloat (Fin 0)),
                 (''high'', PFloat (Fin 0)), (''low'', PFloat (Fin 0)),
                 (''close'', PFloat (Fin 0)), (''volume'', PInt 0)]])
   \<and> result (get_history ascii_upper base_env [null_bar 19999] ''TCS'' ''1M'')
       \<noteq> result (get_history ascii_upper base_env [zero_filled (null_bar 19999)] ''TCS'' ''1M'')"
  by (simp add: base_env_fields null_bar_def str_simps get_history_from_db_def
      order_by_date_def history_item_def float_or_zero_def int_or_zero_def dict_get_def
      zero_filled_def get_history_def cache_lookup_def get_yahoo_symbol_def
      scalar_one_or_none_def tcs_stock_def get_period_dates_def period_mapping_def
      get_latest_date_in_db_def latest_row_def symbol_rows_def history_response_def Let_def)

text \<open>
  C10, amended: every stored bar of the symbol inside the requested window is returned
  by the history read path as one item; a null open, high, low, close or volume of the
  bar is the integer \<open>0\<close> in that item; the volume of the item is the same as for the
  same bar with zeros stored in place of the nulls, while a price field that is null
  reads as the integer \<open>0\<close> where a stored zero reads as the float \<open>0.0\<close>; every
  field of the two items denotes the same number, so it is only by the number, not by
  the value, that a stored null cannot be told from a stored zero.
\<close>

theorem null_bars_read_as_zero:
  "(db_fault e QRange = None \<and> r \<in> set tbl \<and> fst (fst r) = up symbol
      \<and> (case start_date of None \<Rightarrow> True | Some a \<Rightarrow> a \<le> snd (fst r))
      \<and> (case end_date of None \<Rightarrow> True | Some b \<Rightarrow> snd (fst r) \<le> b)
    \<longrightarrow> history_item (strftime e) r
          \<in> set (get_history_from_db up e tbl symbol start_date end_date))
   \<and> (bar_open (snd r) = None \<longrightarrow>
         dict_get (history_item fmt r) ''open'' = Some (PInt 0)
         \<and> dict_get (history_item fmt (zero_filled r)) ''open'' = Some (PFloat (Fin 0)))
   \<and> (bar_high (snd r) = None \<longrightarrow>
         dict_get (history_item fmt r) ''high'' = Some (PInt 0)
         \<and> dict_get (history_item fmt (zero_filled r)) ''high'' = Some (PFloat (Fin 0)))
   \<and> (bar_low (snd r) = None \<longrightarrow>
         dict_get (history_item fmt r) ''low'' = Some (PInt 0)
         \<and> dict_get (history_item fmt (zero_filled r)) ''low'' = Some (PFloat (Fin 0)))
   \<and> (bar_close (snd r) = None \<longrightarrow>
         dict_get (history_item fmt r) ''close'' = Some (PInt 0)
         \<and> dict_get (history_item fmt (zero_filled r)) ''close'' = Some (PFloat (Fin 0)))
   \<and> (bar_volume (snd r) = None \<longrightarrow> dict_get (history_item fmt r) ''volume'' = Some (PInt 0))
   \<and> dict_get (history_item fmt r) ''volume''
       = dict_get (history_item fmt (zero_filled r)) ''volume''
   \<and> dict_get (history_item fmt r) ''timestamp''
       = dict_get (history_item fmt (zero_filled r)) ''timestamp''
   \<and> (\<forall>k. map_option num_value (dict_get (history_item fmt r) k)
           = map_option num_value (dict_get (history_item fmt (zero_filled r)) k))"
proof -
  have 1: "db_fault e QRange = None \<and> r \<in> set tbl \<and> fst (fst r) = up symbol
      \<and> (case start_date of None \<Rightarrow> True | Some a \<Rightarrow> a \<le> snd (fst r))
      \<and> (case end_date of None \<Rightarrow> True | Some b \<Rightarrow> snd (fst r) \<le> b)
    \<longrightarrow> history_item (strftime e) r
          \<in> set (get_history_from_db up e tbl symbol start_date end_date)"
    by (auto simp: get_history_from_db_def set_order_by_date)
  have 2: "\<forall>k. map_option num_value (dict_get (history_item fmt r) k)
           = map_option num_value (dict_get (history_item fmt (zero_filled r)) k)"
    by (auto simp: history_item_def dict_get_def zero_filled_def float_or_zero_def
          int_or_zero_def num_value_def split: option.splits)
  have 3: "dict_get (history_item fmt r) ''timestamp''
       = dict_get (history_item fmt (zero_filled r)) ''timestamp''"
    by (simp add: history_item_def dict_get_def zero_filled_def)
  have 4: "(bar_open (snd r) = None \<longrightarrow>
         dict_get (history_item fmt r) ''open'' = Some (PInt 0)
         \<and> dict_get (history_item fmt (zero_filled r)) ''open'' = Some (PFloat (Fin 0)))
   \<and> (bar_high (snd r) = None \<longrightarrow>
         dict_get (history_item fmt r) ''high'' = Some (PInt 0)
         \<and> dict_get (history_item fmt (zero_filled r)) ''high'' = Some (PFloat (Fin 0)))
   \<and> (bar_low (snd r) = None \<longrightarrow>
         dict_get (history_item fmt r) ''low'' = Some (PInt 0)
         \<and> dict_get (history_item fmt (zero_filled r)) ''low'' = Some (PFloat (Fin 0)))
   \<and> (bar_close (snd r) = None \<longrightarrow>
         dict_get (history_item fmt r) ''close'' = Some (PInt 0)
         \<and> dict_get (history_item fmt (zero_filled r)) ''close'' = Some (PFloat (Fin 0)))
   \<and> (bar_volume (snd r) = None \<longrightarrow> dict_get (history_item fmt r) ''volume'' = Some (PInt 0))"
    by (simp add: history_item_def dict_get_def float_or_zero_def int_or_zero_def
          zero_filled_def)
  have 5: "dict_get (history_item fmt r) ''volume''
       = dict_get (history_item fmt (zero_filled r)) ''volume''"
    by (simp add: history_item_def dict_get_def int_or_zero_def zero_filled_def
          split: option.splits)
  from 1 2 3 4 5 show ?thesis by blast
qed

theorem null_bars_read_as_zero_witness:
  "db_fault base_env QRange = None \<and> null_bar 19990 \<in> set [null_bar 19990]
   \<and> fst (fst (null_bar 19990)) = ascii_upper ''tcs''
   \<and> bar_open (snd (null_bar 19990)) = None
   \<and> bar_volume (snd (null_bar 19990)) = None
   \<and> get_history_from_db ascii_upper base_env [null_bar 19990] ''tcs'' (Some 19820) (Some 20000)
       = [PDict [(''timestamp'', PStr ''date''), (''open'', PInt 0), (''high'', PInt 0),
                 (''low'', PInt 0), (''close'', PInt 0), (''volume'', PInt 0)]]
   \<and> dict_get (history_item (strftime base_env) (null_bar 19990)) ''open'' = Some (PInt 0)
   \<and> dict_get (history_item (strftime base_env) (zero_filled (null_bar 19990))) ''open''
       = Some (PFloat (Fin 0))
   \<and> dict_get (history_item (strftime base_env) (null_bar 19990)) ''volume'' = Some (PInt 0)
   \<and> dict_get (history_item (strftime base_env) (zero_filled (null_bar 19990))) ''volume''
       = Some (PInt 0)"
  using null_bars_read_as_zero [of base_env "null_bar 19990" "[null_bar 19990]" ascii_upper
      "''tcs''" "Some 19820" "Some 20000" "strftime base_env"]
  by (simp add: base_env_def null_bar_def str_simps get_history_from_db_def order_by_date_def
      history_item_def float_or_zero_def int_or_zero_def dict_get_def zero_filled_def)


subsection \<open>The upsert\<close>

lemma last_value_idem: "last_value B k (last_value B k d) = last_value B k d"
proof -
  have gen: "last_value B k d' = last_value B k d \<or> (last_value B k d' = d' \<and> last_value B k d = d)" for d d'
    by (induction B arbitrary: d d') auto
  from gen [of "last_value B k d" d] show ?thesis by auto
qed

lemma fold_upsert_Cons:
  "fold upsert B (x # xs)
     = (fst x, last_value B (fst x) (snd x)) # fold upsert (filter (\<lambda>b. fst b \<noteq> fst x) B) xs"
proof (induction B arbitrary: x xs)
  case Nil
  then show ?case by simp
next
  case (Cons b bs)
  show ?case
  proof (cases "fst x = fst b")
    case True
    have "fold upsert (b # bs) (x # xs) = fold upsert bs ((fst x, snd b) # xs)"
      using True by simp
    also have "\<dots> = (fst x, last_value bs (fst x) (snd b))
                      # fold upsert (filter (\<lambda>b. fst b \<noteq> fst x) bs) xs"
      using Cons.IH [of "(fst x, snd b)" xs] by simp
    finally show ?thesis using True by simp
  next
    case False
    have "fold upsert (b # bs) (x # xs) = fold upsert bs (x # upsert b xs)"
      using False by simp
    also have "\<dots> = (fst x, last_value bs (fst x) (snd x))
                      # fold upsert (filter (\<lambda>b. fst b \<noteq> fst x) bs) (upsert b xs)"
      using Cons.IH [of x "upsert b xs"] by simp
    finally show ?thesis using False by auto
  qed
qed

lemma fold_upsert_idem: "fold upsert B (fold upsert B t) = fold upsert B t"
proof (induction "length B + length t" arbitrary: B t rule: less_induct)
  case less
  show ?case
  proof (cases t)
    case (Cons x xs)
    let ?B' = "filter (\<lambda>b. fst b \<noteq> fst x) B"
    have len: "length ?B' + length xs < length B + length t"
    proof -
      have "length ?B' < Suc (length B)"
        by (rule le_imp_less_Suc) (rule length_filter_le)
      with Cons show ?thesis by simp
    qed
    have ih: "fold upsert ?B' (fold upsert ?B' xs) = fold upsert ?B' xs"
      using less [OF len] .
    have "fold upsert B t = (fst x, last_value B (fst x) (snd x)) # fold upsert ?B' xs"
      using Cons by (simp add: fold_upsert_Cons)
    then show ?thesis
      by (simp add: fold_upsert_Cons last_value_idem ih)
  next
    case Nil
    show ?thesis
    proof (cases B)
      case Nil
      with \<open>t = []\<close> show ?thesis by simp
    next
      case (Cons b bs)
      let ?B' = "filter (\<lambda>c. fst c \<noteq> fst b) bs"
      have len: "length ?B' + length ([] :: ('a \<times> 'b) list) < length B + length t"
      proof -
        have "length ?B' < Suc (length bs)"
          by (rule le_imp_less_Suc) (rule length_filter_le)
        with Cons \<open>t = []\<close> show ?thesis by simp
      qed
      have ih: "fold upsert ?B' (fold upsert ?B' []) = fold upsert ?B' []"
        using less [OF len] .
      have 1: "fold upsert B t = (fst b, last_value bs (fst b) (snd b)) # fold upsert ?B' []"
        using Cons \<open>t = []\<close> by (simp add: fold_upsert_Cons)
      have 2: "last_value bs (fst b) (last_value bs (fst b) (snd b)) = last_value bs (fst b) (snd b)"
        by (rule last_value_idem)
      show ?thesis
        unfolding 1 using Cons by (simp add: fold_upsert_Cons 2 ih)
    qed
  qed
qed


lemma bar_values_upsert:
  "bar_values (upsert r t) = upsert (hd (bar_values [r])) (bar_values t)"
  by (induction t) (simp_all add: bar_values_def)

lemma bar_values_fold_upsert:
  "bar_values (fold upsert rows t) = fold upsert (bar_values rows) (bar_values t)"
proof (induction rows arbitrary: t)
  case Nil
  then show ?case by (simp add: bar_values_def)
next
  case (Cons r rows)
  have "bar_values (r # rows) = hd (bar_values [r]) # bar_values rows"
    by (simp add: bar_values_def)
  then show ?case by (simp add: Cons bar_values_upsert)
qed

lemma insert_row_now:
  "insert_row up s n2 b =
     (case insert_row up s n1 b of
        Inl ex \<Rightarrow> Inl ex
      | Inr r \<Rightarrow> Inr (fst r, (snd r)\<lparr>last_updated := n2\<rparr>))"
  by (simp add: insert_row_def split: sum.splits)

lemma insert_data_now:
  "insert_data up s n2 d =
     (case insert_data up s n1 d of
        Inl ex \<Rightarrow> Inl ex
      | Inr rows \<Rightarrow> Inr (map (\<lambda>r. (fst r, (snd r)\<lparr>last_updated := n2\<rparr>)) rows))"
proof (induction d)
  case Nil
  then show ?case by simp
next
  case (Cons b bs)
  show ?case
    using Cons insert_row_now [of up s n2 b n1]
    by (auto split: sum.splits)
qed

lemma bar_values_restamp:
  "bar_values (map (\<lambda>r. (fst r, (snd r)\<lparr>last_updated := n\<rparr>)) rows) = bar_values rows"
  by (simp add: bar_values_def)

lemma keys_upsert:
  "map fst (upsert r t) = (if fst r \<in> set (map fst t) then map fst t else map fst t @ [fst r])"
  by (induction t) auto

lemma distinct_upsert: "distinct (map fst t) \<Longrightarrow> distinct (map fst (upsert r t))"
  by (simp add: keys_upsert)

lemma distinct_fold_upsert:
  "distinct (map fst t) \<Longrightarrow> distinct (map fst (fold upsert rows t))"
  by (induction rows arbitrary: t) (simp_all add: distinct_upsert)

lemma length_bar_values: "length (bar_values t) = length t"
  by (simp add: bar_values_def)

lemma store_history_distinct:
  "distinct (map fst tbl) \<Longrightarrow> distinct (map fst (fst (store_history_to_db up e symbol data tbl)))"
  by (simp add: store_history_to_db_def distinct_fold_upsert split: sum.splits option.splits)

lemma store_history_values_idem:
  assumes "db_fault e2 QUpsert = None \<longrightarrow> db_fault e1 QUpsert = None"
  shows "bar_values (fst (store_history_to_db up e2 symbol data
                            (fst (store_history_to_db up e1 symbol data tbl))))
         = bar_values (fst (store_history_to_db up e1 symbol data tbl))"
proof (cases "insert_data up symbol (db_now e1) data")
  case (Inl ex)
  then have "insert_data up symbol (db_now e2) data = Inl ex"
    using insert_data_now [of up symbol "db_now e2" data "db_now e1"] by simp
  with Inl show ?thesis by (simp add: store_history_to_db_def)
next
  case (Inr rows)
  let ?rows2 = "map (\<lambda>r. (fst r, (snd r)\<lparr>last_updated := db_now e2\<rparr>)) rows"
  have r2: "insert_data up symbol (db_now e2) data = Inr ?rows2"
    using Inr insert_data_now [of up symbol "db_now e2" data "db_now e1"] by simp
  show ?thesis
  proof (cases "rows = []")
    case True
    with Inr r2 show ?thesis by (simp add: store_history_to_db_def)
  next
    case False
    show ?thesis
    proof (cases "db_fault e1 QUpsert")
      case (Some ex)
      with assms obtain ex2 where "db_fault e2 QUpsert = Some ex2" by auto
      with Some Inr r2 False show ?thesis by (simp add: store_history_to_db_def)
    next
      case None
      have t1: "fst (store_history_to_db up e1 symbol data tbl) = fold upsert rows tbl"
        using None Inr False by (simp add: store_history_to_db_def)
      show ?thesis
      proof (cases "db_fault e2 QUpsert")
        case (Some ex2)
        with r2 False show ?thesis by (simp add: store_history_to_db_def)
      next
        case None
        have t2: "fst (store_history_to_db up e2 symbol data (fold upsert rows tbl))
                  = fold upsert ?rows2 (fold upsert rows tbl)"
          using None r2 False by (simp add: store_history_to_db_def)
        have "bar_values (fold upsert ?rows2 (fold upsert rows tbl))
              = fold upsert (bar_values rows) (fold upsert (bar_values rows) (bar_values tbl))"
          by (simp only: bar_values_fold_upsert bar_values_restamp)
        also have "\<dots> = fold upsert (bar_values rows) (bar_values tbl)"
          by (rule fold_upsert_idem)
        also have "\<dots> = bar_values (fold upsert rows tbl)"
          by (simp only: bar_values_fold_upsert)
        finally show ?thesis by (simp only: t1 t2)
      qed
    qed
  qed
qed

lemma store_history_exact_idem:
  assumes "db_fault e2 QUpsert = None \<longrightarrow> db_fault e1 QUpsert = None"
    and "db_now e2 = db_now e1"
  shows "fst (store_history_to_db up e2 symbol data (fst (store_history_to_db up e1 symbol data tbl)))
         = fst (store_history_to_db up e1 symbol data tbl)"
  using assms
  by (cases "db_fault e1 QUpsert"; cases "db_fault e2 QUpsert")
     (auto simp: store_history_to_db_def fold_upsert_idem split: sum.splits)

text \<open>
  C3: for every symbol, batch of provider rows and table, writing the batch a second
  time leaves the table with the same rows and the same open, high, low, close and
  volume under every \<open>(symbol, date)\<close> key as writing it once: the row count does
  not change, keys that were distinct stay distinct, and with the same \<^verbatim>\<open>NOW()\<close> the
  tables are equal. The two writes run under any conditions except a first write
  that fails where the second goes through.
\<close>

theorem store_history_idempotent:
  "(db_fault e2 QUpsert = None \<longrightarrow> db_fault e1 QUpsert = None) \<longrightarrow>
     bar_values (fst (store_history_to_db up e2 symbol data
                        (fst (store_history_to_db up e1 symbol data tbl))))
       = bar_values (fst (store_history_to_db up e1 symbol data tbl))
     \<and> length (fst (store_history_to_db up e2 symbol data
                        (fst (store_history_to_db up e1 symbol data tbl))))
       = length (fst (store_history_to_db up e1 symbol data tbl))
     \<and> (db_now e2 = db_now e1 \<longrightarrow>
          fst (store_history_to_db up e2 symbol data
                 (fst (store_history_to_db up e1 symbol data tbl)))
          = fst (store_history_to_db up e1 symbol data tbl))
     \<and> (distinct (map fst tbl) \<longrightarrow>
          distinct (map fst (fst (store_history_to_db up e2 symbol data
                                    (fst (store_history_to_db up e1 symbol data tbl))))))"
proof (intro impI conjI)
  assume a: "db_fault e2 QUpsert = None \<longrightarrow> db_fault e1 QUpsert = None"
  show v: "bar_values (fst (store_history_to_db up e2 symbol data
                        (fst (store_history_to_db up e1 symbol data tbl))))
       = bar_values (fst (store_history_to_db up e1 symbol data tbl))"
    using a by (rule store_history_values_idem)
  show "length (fst (store_history_to_db up e2 symbol data
                        (fst (store_history_to_db up e1 symbol data tbl))))
       = length (fst (store_history_to_db up e1 symbol data tbl))"
    using arg_cong [OF v, of length] by (simp only: length_bar_values)
  show "fst (store_history_to_db up e2 symbol data
                 (fst (store_history_to_db up e1 symbol data tbl)))
          = fst (store_history_to_db up e1 symbol data tbl)" if "db_now e2 = db_now e1"
    using a that by (rule store_history_exact_idem)
  show "distinct (map fst (fst (store_history_to_db up e2 symbol data
                                    (fst (store_history_to_db up e1 symbol data tbl)))))"
    if "distinct (map fst tbl)"
    using that by (intro store_history_distinct)
qed

theorem store_history_idempotent_witness:
  "db_fault (base_env\<lparr>db_now := 9\<rparr>) QUpsert = None \<and> db_fault base_env QUpsert = None
   \<and> distinct (map fst [stored_bar 19990, stored_bar 20000])
   \<and> bar_values (fst (store_history_to_db ascii_upper base_env ''tcs'' [nan_bar, good_bar]
                          [stored_bar 19990, stored_bar 20000]))
       = [((''TCS'', 19990), Some (Fin 100), Some (Fin 102), Some (Fin 99), Some (Fin 101), Some 5000),
          ((''TCS'', 20000), Some (Fin 100), Some (Fin 102), Some (Fin 99), Some (Fin 101), Some 5000)]
   \<and> bar_values (fst (store_history_to_db ascii_upper (base_env\<lparr>db_now := 9\<rparr>) ''tcs'' [nan_bar, good_bar]
         (fst (store_history_to_db ascii_upper base_env ''tcs'' [nan_bar, good_bar]
                 [stored_bar 19990, stored_bar 20000]))))
       = [((''TCS'', 19990), Some (Fin 100), Some (Fin 102), Some (Fin 99), Some (Fin 101), Some 5000),
          ((''TCS'', 20000), Some (Fin 100), Some (Fin 102), Some (Fin 99), Some (Fin 101), Some 5000)]"
proof -
  have h: "db_fault (base_env\<lparr>db_now := 9\<rparr>) QUpsert = None \<and> db_fault base_env QUpsert = None"
    by (simp add: base_env_def)
  have d: "distinct (map fst [stored_bar 19990, stored_bar 20000])"
    by (simp add: stored_bar_def)
  have t1: "bar_values (fst (store_history_to_db ascii_upper base_env ''tcs'' [nan_bar, good_bar]
                          [stored_bar 19990, stored_bar 20000]))
       = [((''TCS'', 19990), Some (Fin 100), Some (Fin 102), Some (Fin 99), Some (Fin 101), Some 5000),
          ((''TCS'', 20000), Some (Fin 100), Some (Fin 102), Some (Fin 99), Some (Fin 101), Some 5000)]"
    by (simp add: store_history_to_db_def insert_row_def py_int_def base_env_def nan_bar_def
        good_bar_def stored_bar_def bar_values_def str_simps)
  from store_history_idempotent [of "base_env\<lparr>db_now := 9\<rparr>" base_env ascii_upper "''tcs''"
      "[nan_bar, good_bar]" "[stored_bar 19990, stored_bar 20000]"] h d t1
  show ?thesis by simp
qed

subsection \<open>The subscription registry\<close>

lemma set_add_not_Nil: "set_add x xs \<noteq> []"
  by (auto simp: set_add_def)

lemma set_discard_not_Nil: "set_discard x xs \<noteq> [] \<Longrightarrow> xs \<noteq> []"
  by (cases xs) (simp_all add: set_discard_def)

lemma task_invariant_cong:
  "update_tasks m' = update_tasks m \<Longrightarrow> symbol_subscribers m' = symbol_subscribers m
   \<Longrightarrow> task_invariant m' = task_invariant m"
  by (simp add: task_invariant_def)

lemma task_invariant_remove:
  assumes "task_invariant m"
    and "update_tasks m' = (update_tasks m)(s := None)"
    and "symbol_subscribers m' = (symbol_subscribers m)(s := None)"
  shows "task_invariant m'"
  using assms by (simp add: task_invariant_def)

lemma task_invariant_keep:
  assumes "task_invariant m" and "cs \<noteq> []" and "update_tasks m s \<noteq> None"
    and "update_tasks m' = update_tasks m"
    and "symbol_subscribers m' = (symbol_subscribers m)(s \<mapsto> cs)"
  shows "task_invariant m'"
  using assms by (simp add: task_invariant_def)

lemma task_invariant_start:
  assumes "task_invariant m" and "cs \<noteq> []"
    and "update_tasks m' = (update_tasks m)(s \<mapsto> t)"
    and "symbol_subscribers m' = (symbol_subscribers m)(s \<mapsto> cs)"
  shows "task_invariant m'"
  using assms by (simp add: task_invariant_def)

lemma task_invariant_init: "task_invariant ws_init"
  by (simp add: task_invariant_def ws_init_def)

lemma task_invariant_connect: "task_invariant m \<Longrightarrow> task_invariant (connect m c)"
  by (simp add: task_invariant_def connect_def)

lemma unsubscribe_absent:
  "symbol_subscribers m (up raw) = None \<Longrightarrow>
   update_tasks (unsubscribe_symbol up m c raw) = update_tasks m
   \<and> symbol_subscribers (unsubscribe_symbol up m c raw) = symbol_subscribers m"
  by (cases "subscriptions m c") (simp_all add: unsubscribe_symbol_def Let_def)



lemma unsubscribe_last:
  "update_tasks (unsubscribe_symbol up m c raw) = (update_tasks m)(up raw := None)
   \<and> symbol_subscribers (unsubscribe_symbol up m c raw)
       = (symbol_subscribers m)(up raw := None)"
  if "symbol_subscribers m (up raw) = Some cs" "set_discard c cs = []"
proof (cases "update_tasks m (up raw)")
  case None
  then have "(update_tasks m)(up raw := None) = update_tasks m"
    by (rule fun_upd_idem)
  with None show ?thesis
    using that by (cases "subscriptions m c") (simp_all add: unsubscribe_symbol_def Let_def)
next
  case (Some t)
  then show ?thesis
    using that by (cases "subscriptions m c") (simp_all add: unsubscribe_symbol_def Let_def)
qed

lemma unsubscribe_other:
  "symbol_subscribers m (up raw) = Some cs \<Longrightarrow> set_discard c cs \<noteq> [] \<Longrightarrow>
   update_tasks (unsubscribe_symbol up m c raw) = update_tasks m
   \<and> symbol_subscribers (unsubscribe_symbol up m c raw)
       = (symbol_subscribers m)(up raw \<mapsto> set_discard c cs)"
  by (cases "subscriptions m c") (simp_all add: unsubscribe_symbol_def Let_def)

lemma task_invariant_unsubscribe:
  assumes inv: "task_invariant m"
  shows "task_invariant (unsubscribe_symbol up m c raw)"
proof (cases "symbol_subscribers m (up raw)")
  case None
  have "task_invariant (unsubscribe_symbol up m c raw) = task_invariant m"
    using unsubscribe_absent [where up = up and raw = raw and c = c, OF None] by (intro task_invariant_cong) simp_all
  with inv show ?thesis by simp
next
  case (Some cs)
  show ?thesis
  proof (cases "set_discard c cs = []")
    case True
    have a: "update_tasks (unsubscribe_symbol up m c raw) = (update_tasks m)(up raw := None)"
      and b: "symbol_subscribers (unsubscribe_symbol up m c raw)
                = (symbol_subscribers m)(up raw := None)"
      using unsubscribe_last [where up = up and raw = raw, OF Some True] by simp_all
    show ?thesis by (rule task_invariant_remove [OF inv a b])
  next
    case False
    then have "cs \<noteq> []" by (rule set_discard_not_Nil)
    with inv Some have t: "update_tasks m (up raw) \<noteq> None"
      unfolding task_invariant_def by blast
    have a: "update_tasks (unsubscribe_symbol up m c raw) = update_tasks m"
      and b: "symbol_subscribers (unsubscribe_symbol up m c raw)
                = (symbol_subscribers m)(up raw \<mapsto> set_discard c cs)"
      using unsubscribe_other [where up = up and raw = raw, OF Some False] by simp_all
    show ?thesis by (rule task_invariant_keep [OF inv False t a b])
  qed
qed


lemma task_invariant_fold_unsubscribe:
  "task_invariant m \<Longrightarrow>
   task_invariant (fold (\<lambda>symbol st. unsubscribe_symbol up st c symbol) ss m)"
  by (induction ss arbitrary: m) (simp_all add: task_invariant_unsubscribe)

lemma task_invariant_disconnect:
  assumes inv: "task_invariant m"
  shows "task_invariant (disconnect up m c)"
proof -
  define m1 where "m1 = m\<lparr>active_connections := set_discard c (active_connections m)\<rparr>"
  have inv1: "task_invariant m1"
    using inv by (simp add: m1_def task_invariant_def)
  show ?thesis
  proof (cases "subscriptions m1 c")
    case None
    then have "disconnect up m c = m1"
      by (simp add: disconnect_def Let_def m1_def)
    with inv1 show ?thesis by simp
  next
    case (Some ss)
    define m2 where "m2 = fold (\<lambda>symbol st. unsubscribe_symbol up st c symbol) ss m1"
    have inv2: "task_invariant m2"
      unfolding m2_def using inv1 by (rule task_invariant_fold_unsubscribe)
    have "disconnect up m c = m2\<lparr>subscriptions := (subscriptions m2)(c := None)\<rparr>"
      using Some by (simp add: disconnect_def Let_def m1_def m2_def)
    moreover have "task_invariant (m2\<lparr>subscriptions := (subscriptions m2)(c := None)\<rparr>)"
      using inv2 by (simp add: task_invariant_def)
    ultimately show ?thesis by simp
  qed
qed

lemma subscribe_one_fields:
  assumes "strp (up raw) \<noteq> []"
  shows "symbol_subscribers (subscribe_one up strp c raw m)
           = (symbol_subscribers m)
               (strp (up raw) \<mapsto>
                  set_add c (case symbol_subscribers m (strp (up raw)) of
                               Some cs \<Rightarrow> cs | None \<Rightarrow> []))"
    and "update_tasks (subscribe_one up strp c raw m)
           = (if length (set_add c (case symbol_subscribers m (strp (up raw)) of
                                      Some cs \<Rightarrow> cs | None \<Rightarrow> [])) = 1
              then (update_tasks m)(strp (up raw) \<mapsto> tasks_created m)
              else update_tasks m)"
  using assms
  by (cases "subscriptions m c"; simp add: subscribe_one_def Let_def)+

lemma task_invariant_subscribe_one:
  assumes inv: "task_invariant m"
  shows "task_invariant (subscribe_one up strp c raw m)"
proof (cases "strp (up raw) = []")
  case True
  then show ?thesis using inv by (simp add: subscribe_one_def)
next
  case False
  define s where "s = strp (up raw)"
  define cs where "cs = (case symbol_subscribers m s of Some cs \<Rightarrow> cs | None \<Rightarrow> [])"
  have subs: "symbol_subscribers (subscribe_one up strp c raw m)
                = (symbol_subscribers m)(s \<mapsto> set_add c cs)"
    using subscribe_one_fields(1) [where up = up and strp = strp and raw = raw, OF False] by (simp add: s_def cs_def)
  have tasks: "update_tasks (subscribe_one up strp c raw m)
                = (if length (set_add c cs) = 1
                   then (update_tasks m)(s \<mapsto> tasks_created m) else update_tasks m)"
    using subscribe_one_fields(2) [where up = up and strp = strp and raw = raw, OF False] by (simp add: s_def cs_def)
  have ne: "set_add c cs \<noteq> []" by (rule set_add_not_Nil)
  show ?thesis
  proof (cases "length (set_add c cs) = 1")
    case True
    with tasks have t: "update_tasks (subscribe_one up strp c raw m)
                          = (update_tasks m)(s \<mapsto> tasks_created m)" by simp
    show ?thesis by (rule task_invariant_start [OF inv ne t subs])
  next
    case False
    with tasks have t: "update_tasks (subscribe_one up strp c raw m) = update_tasks m" by simp
    from False have "cs \<noteq> []" by (auto simp: set_add_def)
    then have "symbol_subscribers m s = Some cs"
      by (cases "symbol_subscribers m s") (simp_all add: cs_def)
    with inv \<open>cs \<noteq> []\<close> have "update_tasks m s \<noteq> None"
      unfolding task_invariant_def by blast
    then show ?thesis by (rule task_invariant_keep [OF inv ne _ t subs])
  qed
qed

lemma task_invariant_fold_subscribe_one:
  "task_invariant m \<Longrightarrow> task_invariant (fold (subscribe_one up strp c) symbols m)"
  by (induction symbols arbitrary: m) (simp_all add: task_invariant_subscribe_one)

lemma task_invariant_send_cached:
  "task_invariant m \<Longrightarrow> task_invariant (send_cached up c failing raw m)"
  by (simp add: send_cached_def task_invariant_disconnect)

lemma task_invariant_fold_send_cached:
  "task_invariant m \<Longrightarrow> task_invariant (fold (send_cached up c failing) symbols m)"
  by (induction symbols arbitrary: m) (simp_all add: task_invariant_send_cached)

lemma task_invariant_subscribe_symbols:
  "task_invariant m \<Longrightarrow> task_invariant (subscribe_symbols up strp m c symbols failing)"
  by (cases "subscriptions m c")
     (simp_all add: subscribe_symbols_def task_invariant_fold_send_cached
        task_invariant_fold_subscribe_one)

lemma task_invariant_apply_op: "task_invariant m \<Longrightarrow> task_invariant (apply_op up strp m op)"
  by (cases op)
     (simp_all add: task_invariant_connect task_invariant_disconnect
        task_invariant_subscribe_symbols task_invariant_unsubscribe)

lemma task_invariant_foldl:
  "task_invariant m \<Longrightarrow> task_invariant (foldl (apply_op up strp) m ops)"
  by (induction ops arbitrary: m) (simp_all add: task_invariant_apply_op)

lemma task_invariant_run: "task_invariant (run up strp ops)"
  unfolding run_def by (rule task_invariant_foldl) (rule task_invariant_init)

lemma subscribe_first:
  assumes c: "subscriptions m c = Some ss" and s: "up s \<noteq> []" "strp (up s) = up s"
    and none: "symbol_subscribers m (up s) = None"
  shows "subscribe_symbols up strp m c [s] [] =
           m\<lparr>subscriptions := (subscriptions m)(c \<mapsto> set_add (up s) ss),
             symbol_subscribers := (symbol_subscribers m)(up s \<mapsto> [c]),
             update_tasks := (update_tasks m)(up s \<mapsto> tasks_created m),
             tasks_created := Suc (tasks_created m)\<rparr>"
  using assms
  by (simp add: subscribe_symbols_def subscribe_one_def send_cached_def set_add_def Let_def)

lemma subscribe_second:
  assumes c: "subscriptions m c = Some ss" and s: "up s \<noteq> []" "strp (up s) = up s"
    and one: "symbol_subscribers m (up s) = Some [a]" and ac: "a \<noteq> c"
  shows "subscribe_symbols up strp m c [s] [] =
           m\<lparr>subscriptions := (subscriptions m)(c \<mapsto> set_add (up s) ss),
             symbol_subscribers := (symbol_subscribers m)(up s \<mapsto> [a, c])\<rparr>"
  using assms
  by (simp add: subscribe_symbols_def subscribe_one_def send_cached_def set_add_def Let_def)

lemma unsubscribe_one_of_two:
  assumes two: "symbol_subscribers m (up s) = Some [a, b]" and ab: "a \<noteq> b"
  shows "update_tasks (unsubscribe_symbol up m a s) = update_tasks m"
    and "tasks_cancelled (unsubscribe_symbol up m a s) = tasks_cancelled m"
    and "tasks_created (unsubscribe_symbol up m a s) = tasks_created m"
    and "symbol_subscribers (unsubscribe_symbol up m a s)
           = (symbol_subscribers m)(up s \<mapsto> [b])"
  using assms
  by (cases "subscriptions m a";
      simp add: unsubscribe_symbol_def set_discard_def Let_def)+

lemma unsubscribe_the_last:
  assumes one: "symbol_subscribers m (up s) = Some [b]"
    and t: "update_tasks m (up s) = Some t"
  shows "update_tasks (unsubscribe_symbol up m b s) = (update_tasks m)(up s := None)"
    and "tasks_cancelled (unsubscribe_symbol up m b s) = tasks_cancelled m @ [t]"
    and "symbol_subscribers (unsubscribe_symbol up m b s)
           = (symbol_subscribers m)(up s := None)"
  using assms
  by (cases "subscriptions m b";
      simp add: unsubscribe_symbol_def set_discard_def Let_def)+

text \<open>
  The lifecycle of one task, for a symbol that \<^verbatim>\<open>strip\<close> leaves alone once it is
  upper-cased, so that \<^verbatim>\<open>subscribe_symbols\<close> and \<^verbatim>\<open>unsubscribe_symbol\<close> use the same
  key: from any state in which two distinct clients are connected and the key has no
  subscriber set, after both subscribe one task has been created and is registered;
  after the first unsubscribes it is still registered and nothing was cancelled; after
  the second unsubscribes it is cancelled and no task is registered.
\<close>

lemma lifecycle_same_key:
  assumes h: "a \<noteq> b \<and> up s \<noteq> [] \<and> strp (up s) = up s
        \<and> subscriptions m a \<noteq> None \<and> subscriptions m b \<noteq> None
        \<and> symbol_subscribers m (up s) = None"
  shows "update_tasks (subscribe_symbols up strp (subscribe_symbols up strp m a [s] []) b [s] [])
            (up s)
          = Some (tasks_created m)
        \<and> tasks_created (subscribe_symbols up strp (subscribe_symbols up strp m a [s] []) b [s] [])
          = Suc (tasks_created m)
        \<and> update_tasks (unsubscribe_symbol up
              (subscribe_symbols up strp (subscribe_symbols up strp m a [s] []) b [s] []) a s)
            (up s)
          = Some (tasks_created m)
        \<and> tasks_cancelled (unsubscribe_symbol up
              (subscribe_symbols up strp (subscribe_symbols up strp m a [s] []) b [s] []) a s)
          = tasks_cancelled m
        \<and> update_tasks (unsubscribe_symbol up (unsubscribe_symbol up
              (subscribe_symbols up strp (subscribe_symbols up strp m a [s] []) b [s] []) a s)
              b s) (up s)
          = None
        \<and> tasks_cancelled (unsubscribe_symbol up (unsubscribe_symbol up
              (subscribe_symbols up strp (subscribe_symbols up strp m a [s] []) b [s] []) a s)
              b s)
          = tasks_cancelled m @ [tasks_created m]"
proof -
  from h obtain sa sb where sa: "subscriptions m a = Some sa" and sb: "subscriptions m b = Some sb"
    by auto
  define m1 where "m1 = subscribe_symbols up strp m a [s] []"
  define m2 where "m2 = subscribe_symbols up strp m1 b [s] []"
  define m3 where "m3 = unsubscribe_symbol up m2 a s"
  define m4 where "m4 = unsubscribe_symbol up m3 b s"
  have m1: "m1 = m\<lparr>subscriptions := (subscriptions m)(a \<mapsto> set_add (up s) sa),
             symbol_subscribers := (symbol_subscribers m)(up s \<mapsto> [a]),
             update_tasks := (update_tasks m)(up s \<mapsto> tasks_created m),
             tasks_created := Suc (tasks_created m)\<rparr>"
    unfolding m1_def using h by (intro subscribe_first [where up = up and s = s, OF sa]) simp_all
  have ba: "b \<noteq> a" using h by auto
  have sb1: "subscriptions m1 b = Some sb" using ba sb by (simp add: m1)
  have one: "symbol_subscribers m1 (up s) = Some [a]" by (simp add: m1)
  have m2: "m2 = m1\<lparr>subscriptions := (subscriptions m1)(b \<mapsto> set_add (up s) sb),
             symbol_subscribers := (symbol_subscribers m1)(up s \<mapsto> [a, b])\<rparr>"
    unfolding m2_def using h by (intro subscribe_second [where up = up and s = s, OF sb1 _ _ one]) simp_all
  have two: "symbol_subscribers m2 (up s) = Some [a, b]" by (simp add: m2)
  have t2: "update_tasks m2 (up s) = Some (tasks_created m)" by (simp add: m2 m1)
  have c2: "tasks_created m2 = Suc (tasks_created m)" by (simp add: m2 m1)
  have x2: "tasks_cancelled m2 = tasks_cancelled m" by (simp add: m2 m1)
  have ab: "a \<noteq> b" using h by simp
  have t3: "update_tasks m3 (up s) = Some (tasks_created m)"
    unfolding m3_def using unsubscribe_one_of_two(1) [where up = up and s = s, OF two ab] t2 by simp
  have x3: "tasks_cancelled m3 = tasks_cancelled m"
    unfolding m3_def using unsubscribe_one_of_two(2) [where up = up and s = s, OF two ab] x2 by simp
  have one3: "symbol_subscribers m3 (up s) = Some [b]"
    unfolding m3_def using unsubscribe_one_of_two(4) [where up = up and s = s, OF two ab] by simp
  have t4: "update_tasks m4 (up s) = None"
    unfolding m4_def using unsubscribe_the_last(1) [where up = up and s = s, OF one3 t3] by simp
  have x4: "tasks_cancelled m4 = tasks_cancelled m @ [tasks_created m]"
    unfolding m4_def using unsubscribe_the_last(2) [where up = up and s = s, OF one3 t3] x3 by simp
  from t2 c2 t3 x3 t4 x4 show ?thesis
    unfolding m4_def m3_def m2_def m1_def by blast
qed

text \<open>
  C1 fails on the code. The first half holds: after every sequence of operations a
  symbol has a task in \<open>update_tasks\<close> exactly when its subscriber set exists and is
  not empty (\<open>task_invariant_run\<close>). The second half does not:
  \<^verbatim>\<open>subscribe_symbols\<close> registers a symbol under \<^verbatim>\<open>symbol.upper().strip()\<close>, and
  \<^verbatim>\<open>unsubscribe_symbol\<close> looks it up under \<^verbatim>\<open>symbol.upper()\<close>. Two clients subscribe
  to \<^verbatim>\<open>' tcs'\<close>, which is ASCII, so that \<open>ascii_upper\<close> and \<open>ascii_strip\<close> are what
  Python computes: one task is registered, under \<^verbatim>\<open>TCS\<close>. Then both unsubscribe from
  \<^verbatim>\<open>' tcs'\<close>: the key \<^verbatim>\<open>' TCS'\<close> has no subscriber set, both clients stay subscribers
  of \<^verbatim>\<open>TCS\<close>, the task stays registered and nothing is cancelled.
\<close>

theorem unsubscribe_padded_symbol_keeps_task:
  "ascii_strip (ascii_upper '' tcs'') = ''TCS'' \<and> ascii_upper '' tcs'' = '' TCS''
   \<and> symbol_subscribers (run ascii_upper ascii_strip padded_subscribes) ''TCS''
       = Some [''x'', ''y'']
   \<and> update_tasks (run ascii_upper ascii_strip padded_subscribes) ''TCS'' = Some 0
   \<and> tasks_created (run ascii_upper ascii_strip padded_subscribes) = 1
   \<and> symbol_subscribers
        (run ascii_upper ascii_strip (padded_subscribes @ [Unsubscribe ''x'' '' tcs'']))
        ''TCS'' = Some [''x'', ''y'']
   \<and> symbol_subscribers
        (run ascii_upper ascii_strip
           (padded_subscribes @ [Unsubscribe ''x'' '' tcs'', Unsubscribe ''y'' '' tcs'']))
        ''TCS'' = Some [''x'', ''y'']
   \<and> update_tasks
        (run ascii_upper ascii_strip
           (padded_subscribes @ [Unsubscribe ''x'' '' tcs'', Unsubscribe ''y'' '' tcs'']))
        ''TCS'' = Some 0
   \<and> tasks_cancelled
        (run ascii_upper ascii_strip
           (padded_subscribes @ [Unsubscribe ''x'' '' tcs'', Unsubscribe ''y'' '' tcs'']))
       = []"
  by (simp add: padded_subscribes_def run_def subscribe_symbols_def subscribe_one_def
      send_cached_def unsubscribe_symbol_def connect_def ws_init_def set_add_def
      set_discard_def str_simps Let_def)

subsection \<open>History synchronisation\<close>

lemma sorted_key_last:
  "sorted (map f xs) \<Longrightarrow> x \<in> set xs \<Longrightarrow> f x \<le> f (last xs)"
  by (induction xs) auto

lemma latest_row_None: "symbol_rows tbl s = [] \<Longrightarrow> latest_row tbl s = None"
  by (simp add: latest_row_def order_by_date_def)

lemma latest_row_Some:
  assumes "symbol_rows tbl s \<noteq> []"
  shows "\<exists>r. latest_row tbl s = Some r \<and> r \<in> set (symbol_rows tbl s)
             \<and> (\<forall>x \<in> set (symbol_rows tbl s). snd (fst x) \<le> snd (fst r))"
proof -
  define rows where "rows = order_by_date (symbol_rows tbl s)"
  have st: "set rows = set (symbol_rows tbl s)"
    by (simp add: rows_def order_by_date_def)
  from assms have "set (symbol_rows tbl s) \<noteq> {}" by simp
  with st have "set rows \<noteq> {}" by simp
  then have ne: "rows \<noteq> []" by simp
  have srt: "sorted (map (\<lambda>r. snd (fst r)) rows)"
    by (simp add: rows_def order_by_date_def)
  have l: "latest_row tbl s = Some (last rows)"
    using ne by (cases "rev rows") (simp_all add: latest_row_def rows_def [symmetric] last_rev [symmetric] del: last_rev)
  have "last rows \<in> set rows" using ne by simp
  moreover have "\<forall>x \<in> set rows. snd (fst x) \<le> snd (fst (last rows))"
    using sorted_key_last [OF srt] by blast
  ultimately show ?thesis using l st by auto
qed

lemma latest_date_Max:
  assumes "symbol_rows tbl s \<noteq> []" and "latest_row tbl s = Some r"
  shows "snd (fst r) = Max (set (map (\<lambda>x. snd (fst x)) (symbol_rows tbl s)))"
proof -
  from latest_row_Some [OF assms(1)] assms(2)
  have in_rows: "r \<in> set (symbol_rows tbl s)"
    and mx: "\<forall>x \<in> set (symbol_rows tbl s). snd (fst x) \<le> snd (fst r)" by auto
  show ?thesis
    by (rule Max_eqI [symmetric]) (use in_rows mx in auto)
qed


lemma get_history_provider_log:
  assumes "cache_lookup e (''history:'' @ up symbol @ '':'' @ period) = None"
    and "get_yahoo_symbol up e symbol = Some y" and "y \<noteq> []"
  shows "provider_log (get_history up e tbl symbol period)
         = (case get_latest_date_in_db up e tbl symbol of
              None \<Rightarrow> [HistoryCall y (Period ''max'')]
            | Some d \<Rightarrow>
                if d < today_check e - 1
                then [HistoryCall y (Window (d + 1) (today_fetch e + 1))]
                else [])"
  using assms
  by (cases "get_period_dates up (today e) period";
      cases "get_latest_date_in_db up e tbl symbol")
     (simp_all add: get_history_def Let_def fetch_and_store_history_def split: sum.splits)

lemma get_history_no_sync:
  "cache_lookup e (''history:'' @ up symbol @ '':'' @ period) \<noteq> None
   \<or> get_yahoo_symbol up e symbol = None \<or> get_yahoo_symbol up e symbol = Some []
   \<Longrightarrow> provider_log (get_history up e tbl symbol period) = []"
  by (auto simp: get_history_def Let_def split: option.splits)

text \<open>
  C2, as stated, fails: the store holds a bar of the symbol for \<open>D\<close>, today minus
  one day, and the latest-date query raises. \<^verbatim>\<open>_get_latest_date_in_db\<close> answers
  \<open>None\<close>, and \<^verbatim>\<open>get_history\<close> requests the full history, \<^verbatim>\<open>period='max'\<close>, where
  C2 has no provider fetch. With \<open>D\<close> ten days back it requests the full
  history as well, and so the dates up to \<open>D\<close> again.
\<close>

theorem gap_fill_minimality_counterexample:
  "symbol_rows [stored_bar 19999] (ascii_upper ''TCS'') = [stored_bar 19999]
   \<and> today_check (base_env\<lparr>db_fault := latest_date_failing\<rparr>) - 1 = 19999
   \<and> provider_log (get_history ascii_upper (base_env\<lparr>db_fault := latest_date_failing\<rparr>)
        [stored_bar 19999] ''TCS'' ''1M'')
       = [HistoryCall ''TCS.NS'' (Period ''max'')]
   \<and> symbol_rows [stored_bar 19990] (ascii_upper ''TCS'') = [stored_bar 19990]
   \<and> provider_log (get_history ascii_upper (base_env\<lparr>db_fault := latest_date_failing\<rparr>)
        [stored_bar 19990] ''TCS'' ''1M'')
       = [HistoryCall ''TCS.NS'' (Period ''max'')]"
  by (simp add: get_history_def cache_lookup_def get_yahoo_symbol_def scalar_one_or_none_def
      get_period_dates_def period_mapping_def get_latest_date_in_db_def
      fetch_and_store_history_def latest_date_failing_def symbol_rows_def stored_bar_def
      base_env_def tcs_stock_def good_provider_def str_simps Let_def)

text \<open>
  C2, amended: on the history path (cache miss, symbol known), with \<open>D\<close> the latest
  stored date of the symbol: when the latest-date query raises, the only provider
  call is the full history \<^verbatim>\<open>period='max'\<close>, whatever the store holds. When the query
  is answered: if the store has no row for the symbol, the only provider call is the
  full history, with no start bound; if \<open>D\<close> is strictly before today minus one day,
  the only provider call is for the window from \<open>D + 1\<close> to today plus one day
  (today as \<^verbatim>\<open>_fetch_and_store_history\<close> reads it), so no date up to \<open>D\<close> is
  requested again; if \<open>D\<close> is today minus one day or later, the provider is not
  called.
\<close>

theorem gap_fill_minimality:
  "cache_lookup e (''history:'' @ up symbol @ '':'' @ period) = None
   \<and> get_yahoo_symbol up e symbol = Some y \<and> y \<noteq> []
   \<longrightarrow>
     (db_fault e QLatestDate \<noteq> None \<longrightarrow>
        provider_log (get_history up e tbl symbol period) = [HistoryCall y (Period ''max'')])
   \<and> (db_fault e QLatestDate = None \<and> symbol_rows tbl (up symbol) = [] \<longrightarrow>
        provider_log (get_history up e tbl symbol period) = [HistoryCall y (Period ''max'')])
   \<and> (db_fault e QLatestDate = None \<and> symbol_rows tbl (up symbol) \<noteq> []
        \<and> Max (set (map (\<lambda>r. snd (fst r)) (symbol_rows tbl (up symbol)))) < today_check e - 1 \<longrightarrow>
        provider_log (get_history up e tbl symbol period)
          = [HistoryCall y
               (Window (Max (set (map (\<lambda>r. snd (fst r)) (symbol_rows tbl (up symbol)))) + 1)
                       (today_fetch e + 1))])
   \<and> (db_fault e QLatestDate = None \<and> symbol_rows tbl (up symbol) \<noteq> []
        \<and> today_check e - 1 \<le> Max (set (map (\<lambda>r. snd (fst r)) (symbol_rows tbl (up symbol)))) \<longrightarrow>
        provider_log (get_history up e tbl symbol period) = [])"
proof (intro impI)
  assume h: "cache_lookup e (''history:'' @ up symbol @ '':'' @ period) = None
   \<and> get_yahoo_symbol up e symbol = Some y \<and> y \<noteq> []"
  then have log: "provider_log (get_history up e tbl symbol period)
         = (case get_latest_date_in_db up e tbl symbol of
              None \<Rightarrow> [HistoryCall y (Period ''max'')]
            | Some d \<Rightarrow>
                if d < today_check e - 1
                then [HistoryCall y (Window (d + 1) (today_fetch e + 1))]
                else [])"
    by (intro get_history_provider_log) simp_all
  define D where "D = Max (set (map (\<lambda>r. snd (fst r)) (symbol_rows tbl (up symbol))))"
  have fails: "get_latest_date_in_db up e tbl symbol = None"
    if "db_fault e QLatestDate \<noteq> None"
    using that by (auto simp: get_latest_date_in_db_def)
  have empty: "get_latest_date_in_db up e tbl symbol = None"
    if "db_fault e QLatestDate = None" "symbol_rows tbl (up symbol) = []"
    using that by (simp add: get_latest_date_in_db_def latest_row_None)
  have some: "get_latest_date_in_db up e tbl symbol = Some D"
    if q: "db_fault e QLatestDate = None" and ne: "symbol_rows tbl (up symbol) \<noteq> []"
  proof -
    from latest_row_Some [OF ne] obtain r where r: "latest_row tbl (up symbol) = Some r"
      by blast
    from latest_date_Max [OF ne r] have "snd (fst r) = D" by (simp only: D_def)
    with r q show ?thesis
      by (simp add: get_latest_date_in_db_def)
  qed
  have main: "(db_fault e QLatestDate \<noteq> None \<longrightarrow>
        provider_log (get_history up e tbl symbol period) = [HistoryCall y (Period ''max'')])
   \<and> (db_fault e QLatestDate = None \<and> symbol_rows tbl (up symbol) = [] \<longrightarrow>
        provider_log (get_history up e tbl symbol period) = [HistoryCall y (Period ''max'')])
   \<and> (db_fault e QLatestDate = None \<and> symbol_rows tbl (up symbol) \<noteq> []
        \<and> D < today_check e - 1 \<longrightarrow>
        provider_log (get_history up e tbl symbol period)
          = [HistoryCall y
               (Window (D + 1)
                       (today_fetch e + 1))])
   \<and> (db_fault e QLatestDate = None \<and> symbol_rows tbl (up symbol) \<noteq> []
        \<and> today_check e - 1 \<le> D \<longrightarrow>
        provider_log (get_history up e tbl symbol period) = [])"
    using log fails empty some by auto
  then show "(db_fault e QLatestDate \<noteq> None \<longrightarrow>
        provider_log (get_history up e tbl symbol period) = [HistoryCall y (Period ''max'')])
   \<and> (db_fault e QLatestDate = None \<and> symbol_rows tbl (up symbol) = [] \<longrightarrow>
        provider_log (get_history up e tbl symbol period) = [HistoryCall y (Period ''max'')])
   \<and> (db_fault e QLatestDate = None \<and> symbol_rows tbl (up symbol) \<noteq> []
        \<and> Max (set (map (\<lambda>r. snd (fst r)) (symbol_rows tbl (up symbol)))) < today_check e - 1 \<longrightarrow>
        provider_log (get_history up e tbl symbol period)
          = [HistoryCall y
               (Window (Max (set (map (\<lambda>r. snd (fst r)) (symbol_rows tbl (up symbol)))) + 1)
                       (today_fetch e + 1))])
   \<and> (db_fault e QLatestDate = None \<and> symbol_rows tbl (up symbol) \<noteq> []
        \<and> today_check e - 1 \<le> Max (set (map (\<lambda>r. snd (fst r)) (symbol_rows tbl (up symbol)))) \<longrightarrow>
        provider_log (get_history up e tbl symbol period) = [])"
    unfolding D_def .
qed

lemma base_env_lookup:
  "cache_lookup base_env (''history:'' @ ascii_upper ''tcs'' @ '':'' @ ''1M'') = None
   \<and> get_yahoo_symbol ascii_upper base_env ''tcs'' = Some ''TCS.NS'' \<and> ''TCS.NS'' \<noteq> []"
  by (simp add: cache_lookup_def get_yahoo_symbol_def base_env_def tcs_stock_def
        scalar_one_or_none_def str_simps)

lemma failing_env_lookup:
  "cache_lookup (base_env\<lparr>db_fault := latest_date_failing\<rparr>)
      (''history:'' @ ascii_upper ''tcs'' @ '':'' @ ''1M'') = None
   \<and> get_yahoo_symbol ascii_upper (base_env\<lparr>db_fault := latest_date_failing\<rparr>) ''tcs''
       = Some ''TCS.NS'' \<and> ''TCS.NS'' \<noteq> []"
  by (simp add: cache_lookup_def get_yahoo_symbol_def base_env_def tcs_stock_def
        scalar_one_or_none_def latest_date_failing_def str_simps)

theorem gap_fill_minimality_witness:
  "cache_lookup base_env (''history:'' @ ascii_upper ''tcs'' @ '':'' @ ''1M'') = None
   \<and> get_yahoo_symbol ascii_upper base_env ''tcs'' = Some ''TCS.NS'' \<and> ''TCS.NS'' \<noteq> []
   \<and> db_fault base_env QLatestDate = None
   \<and> today_check base_env = 20000 \<and> today_fetch base_env = 20000
   \<and> symbol_rows [] (ascii_upper ''tcs'') = []
   \<and> provider_log (get_history ascii_upper base_env [] ''tcs'' ''1M'')
        = [HistoryCall ''TCS.NS'' (Period ''max'')]
   \<and> symbol_rows [stored_bar 19990, stored_bar 19995] (ascii_upper ''tcs'') \<noteq> []
   \<and> Max (set (map (\<lambda>r. snd (fst r))
                 (symbol_rows [stored_bar 19990, stored_bar 19995] (ascii_upper ''tcs'')))) = 19995
   \<and> provider_log (get_history ascii_upper base_env [stored_bar 19990, stored_bar 19995] ''tcs'' ''1M'')
        = [HistoryCall ''TCS.NS'' (Window 19996 20001)]
   \<and> symbol_rows [stored_bar 19990, stored_bar 19999] (ascii_upper ''tcs'') \<noteq> []
   \<and> Max (set (map (\<lambda>r. snd (fst r))
                 (symbol_rows [stored_bar 19990, stored_bar 19999] (ascii_upper ''tcs'')))) = 19999
   \<and> provider_log (get_history ascii_upper base_env [stored_bar 19990, stored_bar 19999] ''tcs'' ''1M'') = []
   \<and> db_fault (base_env\<lparr>db_fault := latest_date_failing\<rparr>) QLatestDate \<noteq> None
   \<and> provider_log (get_history ascii_upper (base_env\<lparr>db_fault := latest_date_failing\<rparr>) [stored_bar 19990, stored_bar 19999] ''tcs'' ''1M'')
        = [HistoryCall ''TCS.NS'' (Period ''max'')]"
proof -
  note h = base_env_lookup
  note hf = failing_env_lookup
  have q: "db_fault base_env QLatestDate = None" by (simp add: base_env_def)
  have qf: "db_fault (base_env\<lparr>db_fault := latest_date_failing\<rparr>) QLatestDate \<noteq> None"
    by (simp add: latest_date_failing_def)
  have t: "today_check base_env = 20000" and tf: "today_fetch base_env = 20000"
    by (simp_all add: base_env_def)
  have r0: "symbol_rows [] (ascii_upper ''tcs'') = []" by (simp add: symbol_rows_def)
  have m1: "Max (set (map (\<lambda>r. snd (fst r))
                 (symbol_rows [stored_bar 19990, stored_bar 19995] (ascii_upper ''tcs'')))) = 19995"
    by (simp add: symbol_rows_def stored_bar_def str_simps)
  have m2: "Max (set (map (\<lambda>r. snd (fst r))
                 (symbol_rows [stored_bar 19990, stored_bar 19999] (ascii_upper ''tcs'')))) = 19999"
    by (simp add: symbol_rows_def stored_bar_def str_simps)
  have n1: "symbol_rows [stored_bar 19990, stored_bar 19995] (ascii_upper ''tcs'') \<noteq> []"
    by (simp add: symbol_rows_def stored_bar_def str_simps)
  have n2: "symbol_rows [stored_bar 19990, stored_bar 19999] (ascii_upper ''tcs'') \<noteq> []"
    by (simp add: symbol_rows_def stored_bar_def str_simps)
  have p1: "Max (set (map (\<lambda>r. snd (fst r))
                 (symbol_rows [stored_bar 19990, stored_bar 19995] (ascii_upper ''tcs''))))
             < today_check base_env - 1"
    unfolding m1 t by simp
  have p2: "today_check base_env - 1
             \<le> Max (set (map (\<lambda>r. snd (fst r))
                 (symbol_rows [stored_bar 19990, stored_bar 19999] (ascii_upper ''tcs''))))"
    unfolding m2 t by simp
  from gap_fill_minimality [where e = base_env and up = ascii_upper and symbol = "''tcs''"
      and period = "''1M''" and y = "''TCS.NS''" and tbl = "[]"] h q r0
  have a: "provider_log (get_history ascii_upper base_env [] ''tcs'' ''1M'')
        = [HistoryCall ''TCS.NS'' (Period ''max'')]" by blast
  from gap_fill_minimality [where e = base_env and up = ascii_upper and symbol = "''tcs''"
      and period = "''1M''" and y = "''TCS.NS''"
      and tbl = "[stored_bar 19990, stored_bar 19995]"] h q n1 p1
  have "provider_log (get_history ascii_upper base_env [stored_bar 19990, stored_bar 19995] ''tcs'' ''1M'')
        = [HistoryCall ''TCS.NS''
             (Window (Max (set (map (\<lambda>r. snd (fst r))
                 (symbol_rows [stored_bar 19990, stored_bar 19995] (ascii_upper ''tcs'')))) + 1)
                (today_fetch base_env + 1))]"
    by blast
  then have b: "provider_log (get_history ascii_upper base_env [stored_bar 19990, stored_bar 19995] ''tcs'' ''1M'')
        = [HistoryCall ''TCS.NS'' (Window 19996 20001)]"
    unfolding m1 tf by simp
  from gap_fill_minimality [where e = base_env and up = ascii_upper and symbol = "''tcs''"
      and period = "''1M''" and y = "''TCS.NS''"
      and tbl = "[stored_bar 19990, stored_bar 19999]"] h q n2 p2
  have c: "provider_log (get_history ascii_upper base_env [stored_bar 19990, stored_bar 19999] ''tcs'' ''1M'') = []"
    by blast
  from gap_fill_minimality [where e = "(base_env\<lparr>db_fault := latest_date_failing\<rparr>)"
      and up = ascii_upper and symbol = "''tcs''"
      and period = "''1M''" and y = "''TCS.NS''"
      and tbl = "[stored_bar 19990, stored_bar 19999]"] hf qf
  have d: "provider_log (get_history ascii_upper (base_env\<lparr>db_fault := latest_date_failing\<rparr>) [stored_bar 19990, stored_bar 19999] ''tcs'' ''1M'')
        = [HistoryCall ''TCS.NS'' (Period ''max'')]"
    by blast
  from h q t tf r0 a n1 m1 b n2 m2 c qf d show ?thesis by blast
qed

subsection \<open>Results of the service calls\<close>

lemma get_history_error_result:
  assumes "cache_lookup e (''history:'' @ up symbol @ '':'' @ period) = None"
    and "get_yahoo_symbol up e symbol = None \<or> get_yahoo_symbol up e symbol = Some []"
  shows "result (get_history up e tbl symbol period)
         = history_response [] ''error'' (now_iso e) period
             (PStr ''Symbol not found in database'')"
  using assms by (auto simp: get_history_def)

lemma get_history_ok_result:
  assumes "cache_lookup e (''history:'' @ up symbol @ '':'' @ period) = None"
    and "get_yahoo_symbol up e symbol = Some y" and "y \<noteq> []"
  shows "\<exists>data source. result (get_history up e tbl symbol period)
           = history_response data source (now_iso e) period PNone"
  using assms
  by (cases "get_period_dates up (today e) period") (simp add: get_history_def Let_def, blast)

lemma get_latest_db_quote_shape:
  "get_latest_db_quote up e tbl symbol = PNone
   \<or> (\<exists>kvs. get_latest_db_quote up e tbl symbol = PDict kvs \<and> kvs \<noteq> [])"
  by (simp add: get_latest_db_quote_def split: option.splits sum.splits)

lemma quote_of_hist_shape:
  "quote_of_hist up e symbol stock_info ticker hist = PNone
   \<or> (\<exists>kvs. quote_of_hist up e symbol stock_info ticker hist = PDict kvs \<and> kvs \<noteq> [])"
proof -
  have c: "(case r of Inl ex \<Rightarrow> PNone
           | Inr stock \<Rightarrow> PDict [(''stock'', stock), (''source'', PStr ''yfinance''),
                                   (''timestamp'', PStr t)]) = PNone
         \<or> (\<exists>kvs. (case r of Inl ex \<Rightarrow> PNone
           | Inr stock \<Rightarrow> PDict [(''stock'', stock), (''source'', PStr ''yfinance''),
                                   (''timestamp'', PStr t)]) = PDict kvs \<and> kvs \<noteq> [])"
    for r :: "py_exception + pyval" and t
    by (cases r) simp_all
  show ?thesis
    unfolding quote_of_hist_def Let_def
    by (cases "if \<not> isna (p_volume (last hist)) then py_int (p_volume (last hist)) else Inr 0")
       (simp_all only: sum.case c, simp)
qed

lemma fetch_quote_shape:
  "fst (fetch_quote_from_yfinance up e symbol) = PNone
   \<or> (\<exists>kvs. fst (fetch_quote_from_yfinance up e symbol) = PDict kvs \<and> kvs \<noteq> [])"
  using quote_of_hist_shape
  by (simp add: fetch_quote_from_yfinance_def Let_def
        split: option.splits sum.splits prod.splits)

lemma get_quote_shape:
  assumes "cache_lookup e (''quote:'' @ up symbol) = None"
  shows "result (get_quote up e tbl symbol) = PNone
   \<or> (\<exists>kvs. result (get_quote up e tbl symbol) = PDict kvs \<and> kvs \<noteq> [])"
proof (cases "\<not> is_market_open (ist_now e) \<and> truthy (get_latest_db_quote up e tbl symbol)")
  case True
  then have "result (get_quote up e tbl symbol) = get_latest_db_quote up e tbl symbol"
    using assms by (simp add: get_quote_def Let_def)
  with True get_latest_db_quote_shape [of up e tbl symbol] show ?thesis by auto
next
  case False
  then have "result (get_quote up e tbl symbol)
      = (if truthy (fst (fetch_quote_from_yfinance up e symbol))
         then fst (fetch_quote_from_yfinance up e symbol) else PNone)"
    using assms
    by (cases "fetch_quote_from_yfinance up e symbol") (auto simp: get_quote_def Let_def)
  with fetch_quote_shape [of up e symbol] show ?thesis by auto
qed

lemma history_response_fields:
  "dict_get (history_response d src t p err) ''data'' = Some (PList d)"
  "dict_get (history_response d src t p err) ''records'' = Some (PInt (int (length d)))"
  "dict_get (history_response d src t p err) ''error'' = Some err"
  by (simp_all add: history_response_def dict_get_def)

text \<open>
  C8, as stated, fails: a provider exception inside \<^verbatim>\<open>get_history\<close> does not make
  the error field non-null. With one stored bar ten days old and a provider that
  raises, the gap fetch is attempted and raises, and the result carries
  \<^verbatim>\<open>error = None\<close> and one record.
\<close>

theorem structured_results_counterexample:
  "history (yf (base_env\<lparr>yf := failing_provider\<rparr>)) ''TCS.NS'' (Window 19991 20001)
     = Inl (PyException ''ConnectionError'')
   \<and> provider_log (get_history ascii_upper (base_env\<lparr>yf := failing_provider\<rparr>)
                     [stored_bar 19990] ''TCS'' ''6M'')
     = [HistoryCall ''TCS.NS'' (Window 19991 20001)]
   \<and> dict_get (result (get_history ascii_upper (base_env\<lparr>yf := failing_provider\<rparr>)
                     [stored_bar 19990] ''TCS'' ''6M'')) ''error'' = Some PNone
   \<and> dict_get (result (get_history ascii_upper (base_env\<lparr>yf := failing_provider\<rparr>)
                     [stored_bar 19990] ''TCS'' ''6M'')) ''records'' = Some (PInt 1)"
  by (simp add: get_history_def cache_lookup_def get_yahoo_symbol_def scalar_one_or_none_def
      get_period_dates_def period_mapping_def get_latest_date_in_db_def latest_row_def
      symbol_rows_def order_by_date_def fetch_and_store_history_def get_history_from_db_def
      history_response_def history_item_def dict_get_def base_env_def failing_provider_def
      tcs_stock_def stored_bar_def str_simps Let_def)


text \<open>
  C8, amended: \<^verbatim>\<open>get_history\<close> and \<^verbatim>\<open>get_quote\<close> return a value under every
  provider and store failure. On a cache miss \<^verbatim>\<open>get_history\<close> returns an error
  result (error non-null, data the empty list, records 0) exactly when the symbol
  lookup yields no yahoo symbol, which includes a store exception during that
  lookup; otherwise the error field is null and records is the length of the data,
  whatever the provider, the latest-date query, the upsert and the range read did.
  On a cache miss \<^verbatim>\<open>get_quote\<close> returns \<^verbatim>\<open>None\<close> or a non-empty dictionary.
\<close>

theorem structured_results:
  "(cache_lookup e (''history:'' @ up symbol @ '':'' @ period) = None \<longrightarrow>
      ((get_yahoo_symbol up e symbol = None \<or> get_yahoo_symbol up e symbol = Some []) \<longrightarrow>
         dict_get (result (get_history up e tbl symbol period)) ''error''
           = Some (PStr ''Symbol not found in database'')
         \<and> dict_get (result (get_history up e tbl symbol period)) ''data'' = Some (PList [])
         \<and> dict_get (result (get_history up e tbl symbol period)) ''records'' = Some (PInt 0))
    \<and> (\<not> (get_yahoo_symbol up e symbol = None \<or> get_yahoo_symbol up e symbol = Some []) \<longrightarrow>
         dict_get (result (get_history up e tbl symbol period)) ''error'' = Some PNone
         \<and> (\<exists>data. dict_get (result (get_history up e tbl symbol period)) ''data''
                       = Some (PList data)
                    \<and> dict_get (result (get_history up e tbl symbol period)) ''records''
                       = Some (PInt (int (length data))))))
   \<and> (cache_lookup e (''quote:'' @ up symbol) = None \<longrightarrow>
        result (get_quote up e tbl symbol) = PNone
        \<or> (\<exists>kvs. result (get_quote up e tbl symbol) = PDict kvs \<and> kvs \<noteq> []))"
proof (intro conjI impI)
  assume miss: "cache_lookup e (''history:'' @ up symbol @ '':'' @ period) = None"
    and bad: "get_yahoo_symbol up e symbol = None \<or> get_yahoo_symbol up e symbol = Some []"
  note r = get_history_error_result [where up = up and symbol = symbol and tbl = tbl, OF miss bad]
  show "dict_get (result (get_history up e tbl symbol period)) ''error''
           = Some (PStr ''Symbol not found in database'')"
    by (simp only: r history_response_fields)
  show "dict_get (result (get_history up e tbl symbol period)) ''data'' = Some (PList [])"
    by (simp only: r history_response_fields)
  show "dict_get (result (get_history up e tbl symbol period)) ''records'' = Some (PInt 0)"
    by (simp add: r history_response_fields)
next
  assume miss: "cache_lookup e (''history:'' @ up symbol @ '':'' @ period) = None"
    and good: "\<not> (get_yahoo_symbol up e symbol = None \<or> get_yahoo_symbol up e symbol = Some [])"
  then obtain y where y: "get_yahoo_symbol up e symbol = Some y" "y \<noteq> []" by auto
  from get_history_ok_result [where up = up and symbol = symbol and tbl = tbl, OF miss y] obtain data source
    where r: "result (get_history up e tbl symbol period)
                = history_response data source (now_iso e) period PNone" by blast
  show "dict_get (result (get_history up e tbl symbol period)) ''error'' = Some PNone"
    by (simp only: r history_response_fields)
  show "\<exists>data. dict_get (result (get_history up e tbl symbol period)) ''data''
                       = Some (PList data)
                    \<and> dict_get (result (get_history up e tbl symbol period)) ''records''
                       = Some (PInt (int (length data)))"
    by (simp only: r history_response_fields) blast
next
  assume "cache_lookup e (''quote:'' @ up symbol) = None"
  then show "result (get_quote up e tbl symbol) = PNone
        \<or> (\<exists>kvs. result (get_quote up e tbl symbol) = PDict kvs \<and> kvs \<noteq> [])"
    by (rule get_quote_shape)
qed

theorem structured_results_witness:
  "cache_lookup (base_env\<lparr>stocks := []\<rparr>) (''history:'' @ ascii_upper ''abc'' @ '':'' @ ''6M'') = None
   \<and> get_yahoo_symbol ascii_upper (base_env\<lparr>stocks := []\<rparr>) ''abc'' = None
   \<and> dict_get (result (get_history ascii_upper (base_env\<lparr>stocks := []\<rparr>) [] ''abc'' ''6M'')) ''error''
        = Some (PStr ''Symbol not found in database'')
   \<and> dict_get (result (get_history ascii_upper (base_env\<lparr>stocks := []\<rparr>) [] ''abc'' ''6M'')) ''records''
        = Some (PInt 0)
   \<and> cache_lookup (base_env\<lparr>yf := failing_provider\<rparr>)
        (''history:'' @ ascii_upper ''TCS'' @ '':'' @ ''6M'') = None
   \<and> get_yahoo_symbol ascii_upper (base_env\<lparr>yf := failing_provider\<rparr>) ''TCS'' = Some ''TCS.NS''
   \<and> dict_get (result (get_history ascii_upper (base_env\<lparr>yf := failing_provider\<rparr>)
                         [stored_bar 19990] ''TCS'' ''6M'')) ''error'' = Some PNone
   \<and> cache_lookup (base_env\<lparr>yf := failing_provider\<rparr>) (''quote:'' @ ascii_upper ''TCS'') = None
   \<and> result (get_quote ascii_upper (base_env\<lparr>yf := failing_provider\<rparr>) [] ''TCS'') = PNone"
proof -
  have a: "cache_lookup (base_env\<lparr>stocks := []\<rparr>) (''history:'' @ ascii_upper ''abc'' @ '':'' @ ''6M'') = None"
    by (simp add: cache_lookup_def base_env_def)
  have b: "get_yahoo_symbol ascii_upper (base_env\<lparr>stocks := []\<rparr>) ''abc'' = None"
    by (simp add: get_yahoo_symbol_def base_env_def scalar_one_or_none_def)
  have c: "cache_lookup (base_env\<lparr>yf := failing_provider\<rparr>)
        (''history:'' @ ascii_upper ''TCS'' @ '':'' @ ''6M'') = None"
    by (simp add: cache_lookup_def base_env_def)
  have d: "get_yahoo_symbol ascii_upper (base_env\<lparr>yf := failing_provider\<rparr>) ''TCS'' = Some ''TCS.NS''"
    by (simp add: get_yahoo_symbol_def base_env_def scalar_one_or_none_def tcs_stock_def str_simps)
  have q: "cache_lookup (base_env\<lparr>yf := failing_provider\<rparr>) (''quote:'' @ ascii_upper ''TCS'') = None"
    by (simp add: cache_lookup_def base_env_def)
  from structured_results [of "base_env\<lparr>stocks := []\<rparr>" ascii_upper "''abc''" "''6M''" "[]"] a b
  have 1: "dict_get (result (get_history ascii_upper (base_env\<lparr>stocks := []\<rparr>) [] ''abc'' ''6M'')) ''error''
        = Some (PStr ''Symbol not found in database'')
     \<and> dict_get (result (get_history ascii_upper (base_env\<lparr>stocks := []\<rparr>) [] ''abc'' ''6M'')) ''records''
        = Some (PInt 0)"
    by simp
  from structured_results [of "base_env\<lparr>yf := failing_provider\<rparr>" ascii_upper "''TCS''" "''6M''"
      "[stored_bar 19990]"] c d
  have 2: "dict_get (result (get_history ascii_upper (base_env\<lparr>yf := failing_provider\<rparr>)
                         [stored_bar 19990] ''TCS'' ''6M'')) ''error'' = Some PNone"
    by simp
  from structured_results [of "base_env\<lparr>yf := failing_provider\<rparr>" ascii_upper "''TCS''" "''6M''" "[]"] q
  have 3: "result (get_quote ascii_upper (base_env\<lparr>yf := failing_provider\<rparr>) [] ''TCS'') = PNone
       \<or> (\<exists>kvs. result (get_quote ascii_upper (base_env\<lparr>yf := failing_provider\<rparr>) [] ''TCS'') = PDict kvs
                 \<and> kvs \<noteq> [])"
    by blast
  have 4: "result (get_quote ascii_upper (base_env\<lparr>yf := failing_provider\<rparr>) [] ''TCS'') = PNone"
    by (simp add: get_quote_def cache_lookup_def is_market_open_def get_latest_db_quote_def
      latest_row_def symbol_rows_def order_by_date_def fetch_quote_from_yfinance_def
      scalar_one_or_none_def get_safe_ticker_data_sync_def symbol_variations_def
      INDEX_SYMBOLS_def base_env_def sunday_noon_def tcs_stock_def failing_provider_def
      str_simps Let_def)
  from a b 1 c d 2 q 3 4 show ?thesis by blast
qed

subsection \<open>Quotes\<close>

lemma latest_row_in_table:
  assumes "latest_row tbl s = Some latest"
  shows "latest \<in> set tbl \<and> fst (fst latest) = s
         \<and> (\<forall>r \<in> set tbl. fst (fst r) = s \<longrightarrow> snd (fst r) \<le> snd (fst latest))"
proof -
  have ne: "symbol_rows tbl s \<noteq> []"
    using assms latest_row_None [of tbl s] by auto
  from latest_row_Some [OF ne] assms
  have mem: "latest \<in> set (symbol_rows tbl s)"
    and mx: "\<forall>x \<in> set (symbol_rows tbl s). snd (fst x) \<le> snd (fst latest)" by auto
  from mem have 1: "latest \<in> set tbl" and 2: "fst (fst latest) = s"
    by (simp_all add: symbol_rows_def)
  have 3: "snd (fst r) \<le> snd (fst latest)" if "r \<in> set tbl" "fst (fst r) = s" for r
  proof -
    from that have "r \<in> set (symbol_rows tbl s)" by (simp add: symbol_rows_def)
    with mx show ?thesis by blast
  qed
  from 1 2 3 show ?thesis by blast
qed

lemma get_latest_db_quote_value:
  assumes "db_fault e QQuoteLatestRow = None" and "db_fault e QQuoteStock = None"
    and "latest_row tbl (up symbol) = Some latest"
    and "filter (\<lambda>s. st_symbol s = up symbol) (stocks e) = [stock_info]"
    and "bar_close (snd latest) = Some c" and "bar_high (snd latest) = Some h"
    and "bar_low (snd latest) = Some l" and "bar_open (snd latest) = Some opn"
  shows "get_latest_db_quote up e tbl symbol =
     PDict
       [(''stock'',
         PDict
           [(''symbol'', PStr (up symbol)),
            (''name'', opt_str (st_company_name stock_info)),
            (''exchange'', opt_str (st_exchange stock_info)),
            (''currentPrice'', PFloat c),
            (''change'', PFloat (Fin 0)),
            (''changePercent'', PFloat (Fin 0)),
            (''volume'',
             (case bar_volume (snd latest) of
                Some v \<Rightarrow> if v \<noteq> 0 then PInt v else PInt 0
              | None \<Rightarrow> PInt 0)),
            (''dayHigh'', PFloat h),
            (''dayLow'', PFloat l),
            (''open'', PFloat opn),
            (''sector'', opt_str (st_sector stock_info))]),
        (''source'', PStr ''database''),
        (''timestamp'', PStr (now_iso e))]"
  using assms by (simp add: get_latest_db_quote_def scalar_one_or_none_def)

text \<open>
  C4, as stated, fails: with the market closed, the cache empty and a bar stored for
  the symbol, \<^verbatim>\<open>get_quote\<close> does not return a quote when the \<^verbatim>\<open>stocks\<close> table has no
  row for the symbol; it returns \<^verbatim>\<open>None\<close>.
\<close>

theorem off_hours_quote_counterexample:
  "\<not> is_market_open (ist_now (base_env\<lparr>stocks := []\<rparr>))
   \<and> cache_lookup (base_env\<lparr>stocks := []\<rparr>) (''quote:'' @ ascii_upper ''TCS'') = None
   \<and> latest_row [stored_bar 19999] (ascii_upper ''TCS'') = Some (stored_bar 19999)
   \<and> result (get_quote ascii_upper (base_env\<lparr>stocks := []\<rparr>) [stored_bar 19999] ''TCS'') = PNone"
  by (simp add: get_quote_def cache_lookup_def is_market_open_def get_latest_db_quote_def
      latest_row_def symbol_rows_def order_by_date_def fetch_quote_from_yfinance_def
      scalar_one_or_none_def base_env_def sunday_noon_def stored_bar_def str_simps Let_def)

text \<open>
  C4, amended: when the market-hours predicate is false, the cache misses, the two
  store queries are answered, the symbol has exactly one row in \<^verbatim>\<open>stocks\<close>, and the
  latest stored bar of the symbol has non-null open, high, low and close, then
  \<^verbatim>\<open>get_quote\<close> returns a quote built from that bar (the stored bar of the symbol with
  the greatest date) with change and changePercent zero, calls the provider not at
  all, and issues one cache write of that quote with ten times the base real-time TTL.
\<close>

theorem off_hours_quote:
  "\<not> is_market_open (ist_now e)
   \<and> cache_lookup e (''quote:'' @ up symbol) = None
   \<and> db_fault e QQuoteLatestRow = None \<and> db_fault e QQuoteStock = None
   \<and> latest_row tbl (up symbol) = Some latest
   \<and> filter (\<lambda>s. st_symbol s = up symbol) (stocks e) = [stock_info]
   \<and> bar_close (snd latest) = Some c \<and> bar_high (snd latest) = Some h
   \<and> bar_low (snd latest) = Some l \<and> bar_open (snd latest) = Some opn
   \<longrightarrow>
     latest \<in> set tbl \<and> fst (fst latest) = up symbol
     \<and> (\<forall>r \<in> set tbl. fst (fst r) = up symbol \<longrightarrow> snd (fst r) \<le> snd (fst latest))
     \<and> (\<exists>stock. result (get_quote up e tbl symbol)
                   = PDict [(''stock'', PDict stock), (''source'', PStr ''database''),
                            (''timestamp'', PStr (now_iso e))]
                \<and> map_of stock ''currentPrice'' = Some (PFloat c)
                \<and> map_of stock ''change'' = Some (PFloat (Fin 0))
                \<and> map_of stock ''changePercent'' = Some (PFloat (Fin 0))
                \<and> map_of stock ''dayHigh'' = Some (PFloat h)
                \<and> map_of stock ''dayLow'' = Some (PFloat l)
                \<and> map_of stock ''open'' = Some (PFloat opn))
     \<and> provider_log (get_quote up e tbl symbol) = []
     \<and> cache_log (get_quote up e tbl symbol)
         = [(''quote:'' @ up symbol, result (get_quote up e tbl symbol),
             CACHE_TTL_REALTIME * 10)]"
proof (intro impI)
  assume a: "\<not> is_market_open (ist_now e)
   \<and> cache_lookup e (''quote:'' @ up symbol) = None
   \<and> db_fault e QQuoteLatestRow = None \<and> db_fault e QQuoteStock = None
   \<and> latest_row tbl (up symbol) = Some latest
   \<and> filter (\<lambda>s. st_symbol s = up symbol) (stocks e) = [stock_info]
   \<and> bar_close (snd latest) = Some c \<and> bar_high (snd latest) = Some h
   \<and> bar_low (snd latest) = Some l \<and> bar_open (snd latest) = Some opn"
  define q where "q = get_latest_db_quote up e tbl symbol"
  have v: "q =
     PDict
       [(''stock'',
         PDict
           [(''symbol'', PStr (up symbol)),
            (''name'', opt_str (st_company_name stock_info)),
            (''exchange'', opt_str (st_exchange stock_info)),
            (''currentPrice'', PFloat c),
            (''change'', PFloat (Fin 0)),
            (''changePercent'', PFloat (Fin 0)),
            (''volume'',
             (case bar_volume (snd latest) of
                Some v \<Rightarrow> if v \<noteq> 0 then PInt v else PInt 0
              | None \<Rightarrow> PInt 0)),
            (''dayHigh'', PFloat h),
            (''dayLow'', PFloat l),
            (''open'', PFloat opn),
            (''sector'', opt_str (st_sector stock_info))]),
        (''source'', PStr ''database''),
        (''timestamp'', PStr (now_iso e))]"
    unfolding q_def using a by (intro get_latest_db_quote_value [where up = up and symbol = symbol and latest = latest]) simp_all
  then have tr: "truthy q" by simp
  have out: "get_quote up e tbl symbol
       = \<lparr>result = q, table = tbl, provider_log = [],
          cache_log = [(''quote:'' @ up symbol, q, CACHE_TTL_REALTIME * 10)]\<rparr>"
    using a tr by (simp add: get_quote_def Let_def q_def)
  have r: "result (get_quote up e tbl symbol) = q"
    and p: "provider_log (get_quote up e tbl symbol) = []"
    and cl: "cache_log (get_quote up e tbl symbol)
              = [(''quote:'' @ up symbol, q, CACHE_TTL_REALTIME * 10)]"
    by (simp_all add: out)
  have loc: "latest \<in> set tbl \<and> fst (fst latest) = up symbol
     \<and> (\<forall>r \<in> set tbl. fst (fst r) = up symbol \<longrightarrow> snd (fst r) \<le> snd (fst latest))"
    using a by (intro latest_row_in_table [where s = "up symbol"]) simp
  have ex: "\<exists>stock. result (get_quote up e tbl symbol)
                   = PDict [(''stock'', PDict stock), (''source'', PStr ''database''),
                            (''timestamp'', PStr (now_iso e))]
                \<and> map_of stock ''currentPrice'' = Some (PFloat c)
                \<and> map_of stock ''change'' = Some (PFloat (Fin 0))
                \<and> map_of stock ''changePercent'' = Some (PFloat (Fin 0))
                \<and> map_of stock ''dayHigh'' = Some (PFloat h)
                \<and> map_of stock ''dayLow'' = Some (PFloat l)
                \<and> map_of stock ''open'' = Some (PFloat opn)"
    unfolding r v by simp
  from loc ex p cl r show "latest \<in> set tbl \<and> fst (fst latest) = up symbol
     \<and> (\<forall>r \<in> set tbl. fst (fst r) = up symbol \<longrightarrow> snd (fst r) \<le> snd (fst latest))
     \<and> (\<exists>stock. result (get_quote up e tbl symbol)
                   = PDict [(''stock'', PDict stock), (''source'', PStr ''database''),
                            (''timestamp'', PStr (now_iso e))]
                \<and> map_of stock ''currentPrice'' = Some (PFloat c)
                \<and> map_of stock ''change'' = Some (PFloat (Fin 0))
                \<and> map_of stock ''changePercent'' = Some (PFloat (Fin 0))
                \<and> map_of stock ''dayHigh'' = Some (PFloat h)
                \<and> map_of stock ''dayLow'' = Some (PFloat l)
                \<and> map_of stock ''open'' = Some (PFloat opn))
     \<and> provider_log (get_quote up e tbl symbol) = []
     \<and> cache_log (get_quote up e tbl symbol)
         = [(''quote:'' @ up symbol, result (get_quote up e tbl symbol),
             CACHE_TTL_REALTIME * 10)]"
    by simp
qed

theorem off_hours_quote_witness:
  "\<not> is_market_open (ist_now base_env)
   \<and> cache_lookup base_env (''quote:'' @ ascii_upper ''tcs'') = None
   \<and> db_fault base_env QQuoteLatestRow = None \<and> db_fault base_env QQuoteStock = None
   \<and> latest_row [stored_bar 19990, stored_bar 19999] (ascii_upper ''tcs'') = Some (stored_bar 19999)
   \<and> filter (\<lambda>s. st_symbol s = ascii_upper ''tcs'') (stocks base_env) = [tcs_stock]
   \<and> bar_close (snd (stored_bar 19999)) = Some (Fin 101)
   \<and> bar_high (snd (stored_bar 19999)) = Some (Fin 102)
   \<and> bar_low (snd (stored_bar 19999)) = Some (Fin 99)
   \<and> bar_open (snd (stored_bar 19999)) = Some (Fin 100)
   \<and> provider_log (get_quote ascii_upper base_env [stored_bar 19990, stored_bar 19999] ''tcs'') = []
   \<and> map (\<lambda>c. (fst c, snd (snd c)))
        (cache_log (get_quote ascii_upper base_env [stored_bar 19990, stored_bar 19999] ''tcs''))
       = [(''quote:TCS'', 300)]
   \<and> stored_bar 19999 \<in> set [stored_bar 19990, stored_bar 19999]
   \<and> fst (fst (stored_bar 19999)) = ascii_upper ''tcs''"
proof -
  have h: "\<not> is_market_open (ist_now base_env)
   \<and> cache_lookup base_env (''quote:'' @ ascii_upper ''tcs'') = None
   \<and> db_fault base_env QQuoteLatestRow = None \<and> db_fault base_env QQuoteStock = None
   \<and> latest_row [stored_bar 19990, stored_bar 19999] (ascii_upper ''tcs'') = Some (stored_bar 19999)
   \<and> filter (\<lambda>s. st_symbol s = ascii_upper ''tcs'') (stocks base_env) = [tcs_stock]
   \<and> bar_close (snd (stored_bar 19999)) = Some (Fin 101)
   \<and> bar_high (snd (stored_bar 19999)) = Some (Fin 102)
   \<and> bar_low (snd (stored_bar 19999)) = Some (Fin 99)
   \<and> bar_open (snd (stored_bar 19999)) = Some (Fin 100)"
    by (simp add: is_market_open_def cache_lookup_def latest_row_def symbol_rows_def
        order_by_date_def base_env_def sunday_noon_def tcs_stock_def stored_bar_def str_simps)
  have k: "ascii_upper ''tcs'' = ''TCS''" by (simp add: str_simps)
  from off_hours_quote [of base_env ascii_upper "''tcs''" "[stored_bar 19990, stored_bar 19999]"
      "stored_bar 19999" tcs_stock "Fin 101" "Fin 102" "Fin 99" "Fin 100"] h
  have c: "stored_bar 19999 \<in> set [stored_bar 19990, stored_bar 19999]
     \<and> fst (fst (stored_bar 19999)) = ascii_upper ''tcs''
     \<and> provider_log (get_quote ascii_upper base_env [stored_bar 19990, stored_bar 19999] ''tcs'') = []
     \<and> cache_log (get_quote ascii_upper base_env [stored_bar 19990, stored_bar 19999] ''tcs'')
         = [(''quote:'' @ ascii_upper ''tcs'',
             result (get_quote ascii_upper base_env [stored_bar 19990, stored_bar 19999] ''tcs''),
             CACHE_TTL_REALTIME * 10)]"
    by blast
  then have m: "map (\<lambda>c. (fst c, snd (snd c)))
        (cache_log (get_quote ascii_upper base_env [stored_bar 19990, stored_bar 19999] ''tcs''))
       = [(''quote:TCS'', 300)]"
    by (simp add: k CACHE_TTL_REALTIME_def)
  from h c m show ?thesis by blast
qed
















end
